theory Spec2Isabelle
  imports Main "HOL-Library.Sublist"
begin

section \<open>Principal Mapper: risk findings over an access graph\<close>

text \<open>
  The development embeds \<^verbatim>\<open>principalmapper/analysis/find_risks.py\<close> and
  \<^verbatim>\<open>principalmapper/util/boto_tools.py\<close>. Python exceptions are values of the type
  \<open>error\<close>; a function that can raise returns \<open>error + 'a\<close> with \<open>Inl\<close> the exception.
\<close>

datatype error =
    TypeError
  | KeyError
  | IndexError
  | UnboundLocalError
  | MalformedPolicyError
  | LibraryError string

text \<open>
  \<^verbatim>\<open>UnboundLocalError\<close> is a subclass of \<^verbatim>\<open>NameError\<close> in Python: an
  \<^verbatim>\<open>except NameError\<close> clause catches it.
\<close>

fun is_NameError :: "error \<Rightarrow> bool" where
  "is_NameError UnboundLocalError = True"
| "is_NameError _ = False"

subsection \<open>Data model\<close>

text \<open>
  Modelled from the spec: the classes \<^verbatim>\<open>Node\<close>, \<^verbatim>\<open>Edge\<close>, \<^verbatim>\<open>Graph\<close> of
  \<^verbatim>\<open>principalmapper.common\<close> and the policy documents they hold are not among the
  source files. The records follow the data model of the specification (section 3); the
  field names are the attributes that \<^verbatim>\<open>find_risks.py\<close> reads (\<^verbatim>\<open>node.arn\<close>,
  \<^verbatim>\<open>node.is_admin\<close>, \<^verbatim>\<open>node.access_keys\<close>, \<^verbatim>\<open>node.instance_profile\<close>,
  \<^verbatim>\<open>node.trust_policy\<close>, \<^verbatim>\<open>edge.destination\<close>, \<^verbatim>\<open>graph.nodes\<close>,
  \<^verbatim>\<open>graph.metadata\<close>).
\<close>

datatype effect = Allow | Deny

datatype condition_operator =
    ExactString
  | WildcardString
  | ExactNumeric
  | UnrecognizedOperator

record condition =
  operator :: condition_operator
  context_key :: string
  expected :: "string list"

record statement =
  effect :: effect
  actions :: "string list"
  resources :: "string list"
  conditions :: "condition list"

type_synonym policy_document = "statement list"

type_synonym request_context = "string \<rightharpoonup> string"

record group =
  group_policies :: "policy_document list"

datatype principal_type = User | Role

record node =
  arn :: string
  principal_type :: principal_type
  attached_policies :: "policy_document list"
  group_memberships :: "group list"
  permissions_boundary :: "policy_document option"
  trust_policy :: "policy_document option"
  is_admin :: bool
  access_keys :: int
  instance_profile :: "string option"

record edge =
  edge_source :: node
  destination :: node
  technique :: string
  rationale :: string

record graph =
  nodes :: "node list"
  edges :: "edge list"
  metadata :: "string \<rightharpoonup> string"

text \<open>
  A finding has the five entries that the module docstring of \<^verbatim>\<open>find_risks.py\<close> lists;
  \<^verbatim>\<open>Finding(...)\<close> takes them in this order. A report has the four attributes that
  \<^verbatim>\<open>print_report\<close> reads, in the order \<^verbatim>\<open>gen_report\<close> passes them.
\<close>

record finding =
  title :: string
  severity :: string
  impact :: string
  description :: string
  recommendation :: string

record 't report =
  account :: string
  date_and_time :: 't
  findings :: "finding list"
  source :: string

text \<open>
  Modelled from the spec: the enumeration \<^verbatim>\<open>ResourcePolicyEvalResult\<close> of
  \<^verbatim>\<open>query_interface\<close> is not among the source files; its four values are the results
  that section 4.2 of the specification lists for the evaluation of a resource policy.
\<close>

datatype resource_policy_eval_result =
    NO_MATCH
  | SERVICE_MATCH
  | ACCOUNT_MATCH
  | EXPLICIT_DENY_MATCH

subsection \<open>Collaborators of the risk layer\<close>

text \<open>
  The functions that \<^verbatim>\<open>find_risks.py\<close> imports are parameters of its model, collected
  in one record. The two operations of \<^verbatim>\<open>query_interface\<close> evaluate policies and may
  raise on malformed input, so they return \<open>error + _\<close>; the others are taken to return.
  \<^verbatim>\<open>can_privesc\<close> yields the pair the source unpacks: the verdict and the edge list.
\<close>

record collaborators =
  qi_local_check_authorization_handling_mfa ::
    "node \<Rightarrow> string \<Rightarrow> string \<Rightarrow> request_context \<Rightarrow> error + (bool \<times> bool)"
  qi_resource_policy_authorization ::
    "string \<Rightarrow> string \<Rightarrow> policy_document option \<Rightarrow> string \<Rightarrow> string \<Rightarrow> request_context
      \<Rightarrow> bool \<Rightarrow> error + resource_policy_eval_result"
  arns_get_account_id :: "string \<Rightarrow> string"
  privesc_can_privesc :: "graph \<Rightarrow> node \<Rightarrow> bool \<times> edge list"
  searchable_name :: "node \<Rightarrow> string"
  describe_edge :: "edge \<Rightarrow> string"

subsection \<open>Shared loop: the bullet list of affected principals\<close>

text \<open>
  Four generators build the body of their description with the same loop:
  \<^verbatim>\<open>for node in affected: description_body += '* {}\n'.format(node.searchable_name())\<close>.
\<close>

fun description_body_loop :: "collaborators \<Rightarrow> node list \<Rightarrow> string \<Rightarrow> string" where
  "description_body_loop E [] description_body = description_body"
| "description_body_loop E (node # rest) description_body =
     description_body_loop E rest
       (description_body @ ''* '' @ searchable_name E node @ ''\<newline>'')"

subsection \<open>\<^verbatim>\<open>gen_overprivileged_instance_profile_findings\<close>\<close>

fun instance_profile_affected_loop :: "node list \<Rightarrow> node list \<Rightarrow> node list" where
  "instance_profile_affected_loop [] affected_roles = affected_roles"
| "instance_profile_affected_loop (node # rest) affected_roles =
     (if sublist '':role/'' (arn node) \<and> is_admin node \<and> instance_profile node \<noteq> None
      then instance_profile_affected_loop rest (affected_roles @ [node])
      else instance_profile_affected_loop rest affected_roles)"

definition instance_profile_affected_roles :: "graph \<Rightarrow> node list" where
  "instance_profile_affected_roles g = instance_profile_affected_loop (nodes g) []"

definition instance_profile_preamble :: string where
  "instance_profile_preamble =
     ''In AWS, EC2 instances can be given an instance profile. These instance profiles '' @
     ''are associated with an IAM Role, and grants access to the permissions of the IAM '' @
     ''Role. Because EC2 instances are at a higher risk of exposure and compromise, both '' @
     ''to external attackers and authorized users in the AWS account, they should not have '' @
     ''access to administrative privileges. The following IAM Roles have administrative '' @
     ''permissions and are associated with an instance profile:\<newline>\<newline>''"

definition instance_profile_finding :: "collaborators \<Rightarrow> node list \<Rightarrow> finding" where
  "instance_profile_finding E affected_roles =
     \<lparr>title = ''Instance '' @
        (if length affected_roles > 1 then ''Profiles Have'' else ''Profile Has'') @
        '' Administrator Privileges'',
      severity = ''High'',
      impact =
        ''If an instance with the noted instance profile(s) is compromised, then the AWS account as a whole is at '' @
        ''risk of compromise.'',
      description = instance_profile_preamble @ description_body_loop E affected_roles [],
      recommendation =
        ''Reduce the scope of permissions attached to the noted instance profile(s).''\<rparr>"

text \<open>This generator calls no fallible collaborator and has no raising operation.\<close>

definition gen_overprivileged_instance_profile_findings ::
    "collaborators \<Rightarrow> graph \<Rightarrow> finding list" where
  "gen_overprivileged_instance_profile_findings E g =
     (let affected_roles = instance_profile_affected_roles g in
      if length affected_roles > 0 then [instance_profile_finding E affected_roles] else [])"

subsection \<open>\<^verbatim>\<open>_can_call_without_mfa\<close> and \<^verbatim>\<open>gen_mfa_actions_findings\<close>\<close>

text \<open>
  The loop over the actions asks the engine about each action on resource \<^verbatim>\<open>'*'\<close> with
  the empty context \<^verbatim>\<open>{}\<close>, and returns at the first action that is authorized with the
  needs-MFA flag false. An exception of the engine propagates.
\<close>

fun can_call_without_mfa :: "collaborators \<Rightarrow> node \<Rightarrow> string list \<Rightarrow> error + bool" where
  "can_call_without_mfa E node [] = Inr False"
| "can_call_without_mfa E node (action # rest) =
     (case qi_local_check_authorization_handling_mfa E node action ''*'' Map.empty of
        Inl e \<Rightarrow> Inl e
      | Inr (auth, needmfa) \<Rightarrow>
          if auth \<and> \<not> needmfa then Inr True else can_call_without_mfa E node rest)"

definition mfa_actions :: "string list" where
  "mfa_actions =
     [''iam:CreateUser'', ''iam:CreateRole'', ''iam:CreateGroup'', ''iam:PutUserPolicy'',
      ''iam:PutRolePolicy'', ''iam:PutGroupPolicy'', ''iam:AttachUserPolicy'',
      ''iam:AttachRolePolicy'', ''iam:AttachGroupPolicy'', ''sts:AssumeRole'']"

fun mfa_affected_loop :: "collaborators \<Rightarrow> node list \<Rightarrow> node list \<Rightarrow> error + node list" where
  "mfa_affected_loop E [] affected_users = Inr affected_users"
| "mfa_affected_loop E (node # rest) affected_users =
     (if sublist '':user/'' (arn node) \<and> is_admin node \<and> access_keys node > 0
      then (case can_call_without_mfa E node mfa_actions of
              Inl e \<Rightarrow> Inl e
            | Inr b \<Rightarrow>
                if b then mfa_affected_loop E rest (affected_users @ [node])
                else mfa_affected_loop E rest affected_users)
      else mfa_affected_loop E rest affected_users)"

definition mfa_affected_users :: "collaborators \<Rightarrow> graph \<Rightarrow> error + node list" where
  "mfa_affected_users E g = mfa_affected_loop E (nodes g) []"

definition mfa_preamble :: string where
  "mfa_preamble =
     ''In AWS, IAM Users can be configured to use an MFA device. When an IAM User has MFA '' @
     ''enabled, they are required to provide the second factor of authentication when they '' @
     ''log in to the AWS Console. However, unless there is a specific IAM policy attached '' @
     ''to the user, they will not need to provide a second factor of authentication when '' @
     ''making API calls.\<newline>\<newline>The following administrative IAM Users have at least one set of '' @
     ''access keys, and can call sensitive actions to alter permissions or add users '' @
     ''without using a second factor of authentication:\<newline>\<newline>''"

definition mfa_finding :: "collaborators \<Rightarrow> node list \<Rightarrow> finding" where
  "mfa_finding E affected_users =
     \<lparr>title = ''Administrative IAM '' @
        (if length affected_users > 1 then ''Users'' else ''User'') @
        '' Can Call Sensitive Actions Without MFA'',
      severity = ''Medium'',
      impact =
        ''An adminstrative IAM User is able to call sensitive actions, such as creating more principals or '' @
        ''modifying permissions, without using MFA.'',
      description = mfa_preamble @ description_body_loop E affected_users [],
      recommendation =
        ''Implement and attach an IAM Policy to the noted user(s) that rejects requests when MFA is not used.''\<rparr>"

definition gen_mfa_actions_findings :: "collaborators \<Rightarrow> graph \<Rightarrow> error + finding list" where
  "gen_mfa_actions_findings E g =
     (case mfa_affected_users E g of
        Inl e \<Rightarrow> Inl e
      | Inr affected_users \<Rightarrow>
          Inr (if length affected_users > 0 then [mfa_finding E affected_users] else []))"

subsection \<open>\<^verbatim>\<open>gen_overprivileged_function_findings\<close> and \<^verbatim>\<open>gen_overprivileged_stack_findings\<close>\<close>

text \<open>
  Both generators run the same test with a different service principal: the trust policy of
  an administrative role is evaluated for \<^verbatim>\<open>sts:AssumeRole\<close> on the role's own ARN with
  the empty context, and the role is kept when the result is \<^verbatim>\<open>SERVICE_MATCH\<close>.
\<close>

fun function_affected_loop ::
    "collaborators \<Rightarrow> node list \<Rightarrow> node list \<Rightarrow> error + node list" where
  "function_affected_loop E [] affected_roles = Inr affected_roles"
| "function_affected_loop E (node # rest) affected_roles =
     (if sublist '':role/'' (arn node) \<and> is_admin node
      then (case qi_resource_policy_authorization E ''lambda.amazonaws.com''
                   (arns_get_account_id E (arn node)) (trust_policy node) ''sts:AssumeRole''
                   (arn node) Map.empty False of
              Inl e \<Rightarrow> Inl e
            | Inr res \<Rightarrow>
                if res = SERVICE_MATCH
                then function_affected_loop E rest (affected_roles @ [node])
                else function_affected_loop E rest affected_roles)
      else function_affected_loop E rest affected_roles)"

definition function_affected_roles :: "collaborators \<Rightarrow> graph \<Rightarrow> error + node list" where
  "function_affected_roles E g = function_affected_loop E (nodes g) []"

definition function_preamble :: string where
  "function_preamble =
     ''In AWS, Lambda functions can be assigned an IAM Role to use during execution. These '' @
     ''IAM Roles give the function access to call the AWS API with the permissions of the '' @
     ''IAM Role, depending on the policies attached to it. If the Lambda function can be '' @
     ''compromised, and the attacker can alter the code it executes, the attacker could '' @
     ''make AWS API calls with the IAM Role's permissions. The following IAM Roles have '' @
     ''administrative privileges, and can be passed to Lambda functions:\<newline>\<newline>''"

definition function_finding :: "collaborators \<Rightarrow> node list \<Rightarrow> finding" where
  "function_finding E affected_roles =
     \<lparr>title =
        (if length affected_roles > 1
         then ''IAM Roles Available to Lambda Functions Have Administrative Privileges''
         else ''IAM Role Available to Lambda Functions Has Administrative Privileges''),
      severity = ''Medium'',
      impact =
        ''If an attacker can inject code or commands into the function, or if a lower-privileged principal can '' @
        ''alter the function, the AWS account as a whole could be compromised.'',
      description = function_preamble @ description_body_loop E affected_roles [],
      recommendation = ''Reduce the scope of permissions attached to the noted IAM Role(s).''\<rparr>"

definition gen_overprivileged_function_findings ::
    "collaborators \<Rightarrow> graph \<Rightarrow> error + finding list" where
  "gen_overprivileged_function_findings E g =
     (case function_affected_roles E g of
        Inl e \<Rightarrow> Inl e
      | Inr affected_roles \<Rightarrow>
          Inr (if length affected_roles > 0 then [function_finding E affected_roles] else []))"

fun stack_affected_loop ::
    "collaborators \<Rightarrow> node list \<Rightarrow> node list \<Rightarrow> error + node list" where
  "stack_affected_loop E [] affected_roles = Inr affected_roles"
| "stack_affected_loop E (node # rest) affected_roles =
     (if sublist '':role/'' (arn node) \<and> is_admin node
      then (case qi_resource_policy_authorization E ''cloudformation.amazonaws.com''
                   (arns_get_account_id E (arn node)) (trust_policy node) ''sts:AssumeRole''
                   (arn node) Map.empty False of
              Inl e \<Rightarrow> Inl e
            | Inr res \<Rightarrow>
                if res = SERVICE_MATCH
                then stack_affected_loop E rest (affected_roles @ [node])
                else stack_affected_loop E rest affected_roles)
      else stack_affected_loop E rest affected_roles)"

definition stack_affected_roles :: "collaborators \<Rightarrow> graph \<Rightarrow> error + node list" where
  "stack_affected_roles E g = stack_affected_loop E (nodes g) []"

definition stack_preamble :: string where
  "stack_preamble =
     ''In AWS, CloudFormation stacks can be given an IAM Role. When a stack has an IAM '' @
     ''Role, it can use that IAM Role to make AWS API calls to create the resources '' @
     ''defined in the template for that stack. If the IAM Role has administrator access '' @
     ''to the account, and an attacker is able to make the right CloudFormation API calls, '' @
     ''they would be able to use the IAM Role to escalate privileges and compromise the '' @
     ''account as a whole. The following IAM Roles can be used in CloudFormation and '' @
     ''have administrative privileges:\<newline>\<newline>''"

definition stack_finding :: "collaborators \<Rightarrow> node list \<Rightarrow> finding" where
  "stack_finding E affected_roles =
     \<lparr>title =
        (if length affected_roles > 1
         then ''IAM Roles Available to CloudFormation Stacks Have Administrative Privileges''
         else ''IAM Role Available to CloudFormation Stacks Has Administrative Privileges''),
      severity = ''Low'',
      impact =
        ''If an attacker has the right permissions in the AWS Account, they can grant themselves adminstrative '' @
        ''access to the account to compromise the account.'',
      description = stack_preamble @ description_body_loop E affected_roles [],
      recommendation = ''Reduce the scope of permissions attached to the noted IAM Role(s).''\<rparr>"

definition gen_overprivileged_stack_findings ::
    "collaborators \<Rightarrow> graph \<Rightarrow> error + finding list" where
  "gen_overprivileged_stack_findings E g =
     (case stack_affected_roles E g of
        Inl e \<Rightarrow> Inl e
      | Inr affected_roles \<Rightarrow>
          Inr (if length affected_roles > 0 then [stack_finding E affected_roles] else []))"

subsection \<open>\<^verbatim>\<open>gen_privesc_findings\<close>\<close>

text \<open>
  Python's \<^verbatim>\<open>edge_list[-1]\<close> raises \<^verbatim>\<open>IndexError\<close> on the empty list.
\<close>

definition last_item :: "'a list \<Rightarrow> error + 'a" where
  "last_item xs = (if xs = [] then Inl IndexError else Inr (last xs))"

fun node_path_loop ::
    "collaborators \<Rightarrow> graph \<Rightarrow> node list \<Rightarrow> (node \<times> edge list) list \<Rightarrow> (node \<times> edge list) list"
  where
  "node_path_loop E g [] node_path_list = node_path_list"
| "node_path_loop E g (node # rest) node_path_list =
     (case privesc_can_privesc E g node of
        (privesc_res, edge_list) \<Rightarrow>
          if privesc_res then node_path_loop E g rest (node_path_list @ [(node, edge_list)])
          else node_path_loop E g rest node_path_list)"

definition privesc_node_path_list :: "collaborators \<Rightarrow> graph \<Rightarrow> (node \<times> edge list) list" where
  "privesc_node_path_list E g = node_path_loop E g (nodes g) []"

fun edge_lines_loop :: "collaborators \<Rightarrow> edge list \<Rightarrow> string \<Rightarrow> string" where
  "edge_lines_loop E [] description_body = description_body"
| "edge_lines_loop E (edge # rest) description_body =
     edge_lines_loop E rest (description_body @ ''   * '' @ describe_edge E edge @ ''\<newline>'')"

fun privesc_body_loop ::
    "collaborators \<Rightarrow> (node \<times> edge list) list \<Rightarrow> string \<Rightarrow> error + string" where
  "privesc_body_loop E [] description_body = Inr description_body"
| "privesc_body_loop E ((node, edge_list) # rest) description_body =
     (case last_item edge_list of
        Inl e \<Rightarrow> Inl e
      | Inr last_edge \<Rightarrow>
          (let end_of_list = destination last_edge;
               description_body = description_body @
                 ''* '' @ searchable_name E node @
                 '' can escalate privileges by accessing the administrative principal '' @
                 searchable_name E end_of_list @ '':\<newline>'';
               description_body = edge_lines_loop E edge_list description_body;
               description_body = description_body @ ''\<newline>''
           in privesc_body_loop E rest description_body))"

definition privesc_preamble :: string where
  "privesc_preamble =
     ''In AWS, IAM Principals such as IAM Users or IAM Roles have their permissions defined '' @
     ''using IAM Policies. These policies describe different actions, resources, and '' @
     ''conditions where the principal can make a given API call to a service.\<newline>\<newline>'' @
     ''The following principals could escalate privileges:\<newline>\<newline>''"

definition privesc_finding :: "(node \<times> edge list) list \<Rightarrow> string \<Rightarrow> finding" where
  "privesc_finding node_path_list description_body =
     \<lparr>title = ''IAM '' @
        (if length node_path_list > 1 then ''Principals'' else ''Principal'') @
        '' Can Escalate Privileges'',
      severity = ''High'',
      impact =
        ''A lower-privilege IAM User or Role is able to gain administrative privileges. This could lead to the '' @
        ''lower-privilege principal being used to compromise the account's resources.'',
      description = privesc_preamble @ description_body,
      recommendation =
        ''Review the IAM Policies that are applicable to the affected IAM User(s) or Role(s). Either reduce the '' @
        ''permissions of the administrative principal(s), or reduce the permissions of the principal(s) that can '' @
        ''access the administrative principals.''\<rparr>"

definition gen_privesc_findings :: "collaborators \<Rightarrow> graph \<Rightarrow> error + finding list" where
  "gen_privesc_findings E g =
     (let node_path_list = privesc_node_path_list E g in
      if length node_path_list > 0 then
        (case privesc_body_loop E node_path_list [] of
           Inl e \<Rightarrow> Inl e
         | Inr description_body \<Rightarrow> Inr [privesc_finding node_path_list description_body])
      else Inr [])"

subsection \<open>\<^verbatim>\<open>gen_all_findings\<close> and \<^verbatim>\<open>gen_report\<close>\<close>

text \<open>
  \<^verbatim>\<open>gen_all_findings\<close> extends one result list with the output of the five generators in
  the order of the source; the first exception ends it.
\<close>

definition gen_all_findings :: "collaborators \<Rightarrow> graph \<Rightarrow> error + finding list" where
  "gen_all_findings E g =
     (case gen_privesc_findings E g of
        Inl e \<Rightarrow> Inl e
      | Inr privesc \<Rightarrow>
     (case gen_mfa_actions_findings E g of
        Inl e \<Rightarrow> Inl e
      | Inr mfa \<Rightarrow>
     (case gen_overprivileged_function_findings E g of
        Inl e \<Rightarrow> Inl e
      | Inr func \<Rightarrow>
     (let prof = gen_overprivileged_instance_profile_findings E g in
     (case gen_overprivileged_stack_findings E g of
        Inl e \<Rightarrow> Inl e
      | Inr stack \<Rightarrow> Inr ([] @ privesc @ mfa @ func @ prof @ stack))))))"

text \<open>
  \<^verbatim>\<open>gen_report\<close> computes the findings first; then \<^verbatim>\<open>graph.metadata['account_id']\<close>
  is read, which raises \<^verbatim>\<open>KeyError\<close> when the dictionary has no such key. The clock
  value \<open>now\<close> stands for \<^verbatim>\<open>dt.datetime.now(dt.timezone.utc)\<close> and \<open>version\<close> for
  \<^verbatim>\<open>principalmapper.__version__\<close>. This definition gives the value that the call
  yields from the values the collaborators yield; what the call does to the objects it is
  handed is the subject of the heap model further down.
\<close>

definition gen_report :: "collaborators \<Rightarrow> 't \<Rightarrow> string \<Rightarrow> graph \<Rightarrow> error + 't report" where
  "gen_report E now version g =
     (case gen_all_findings E g of
        Inl e \<Rightarrow> Inl e
      | Inr fs \<Rightarrow>
          (case metadata g ''account_id'' of
             None \<Rightarrow> Inl KeyError
           | Some account_id \<Rightarrow>
               Inr \<lparr>account = account_id,
                    date_and_time = now,
                    findings = fs,
                    source =
                      ''Findings identified using Principal Mapper ('' @ version @
                      '') from NCC Group: https://github.com/nccgroup/PMapper''\<rparr>))"

subsection \<open>\<^verbatim>\<open>gen_findings_to_file\<close>\<close>

text \<open>
  \<^verbatim>\<open>os.curdir\<close> is the string \<^verbatim>\<open>'.'\<close>. A \<^verbatim>\<open>str\<close> object is not callable: applying
  it to arguments raises \<^verbatim>\<open>TypeError\<close>, whatever the string is.
\<close>

definition os_curdir :: string where
  "os_curdir = ''.''"

definition os_devnull :: string where
  "os_devnull = ''/dev/null''"

definition call_str_object :: "string \<Rightarrow> error + string" where
  "call_str_object s = Inl TypeError"

text \<open>
  The file system is a map from paths to the contents of regular files. Opening a path
  with mode \<^verbatim>\<open>'w'\<close> creates or truncates the file; the null device stores nothing.
  \<^verbatim>\<open>content\<close> is a dictionary until \<^verbatim>\<open>json.dumps\<close> turns it into a string, and
  \<^verbatim>\<open>f.write\<close> accepts a string only.
\<close>

type_synonym file_system = "string \<rightharpoonup> string"

datatype 'd content = Dictionary 'd | Text string

record ('t, 'd) file_collaborators =
  as_dictionary :: "'t report \<Rightarrow> 'd"
  json_dumps :: "'d content \<Rightarrow> string"
  os_path_abspath :: "string \<Rightarrow> string"

definition os_path_isfile :: "file_system \<Rightarrow> string \<Rightarrow> bool" where
  "os_path_isfile fs path = (path \<in> dom fs)"

definition open_w :: "file_system \<Rightarrow> string \<Rightarrow> file_system" where
  "open_w fs path = (if path = os_devnull then fs else fs(path \<mapsto> []))"

definition file_write :: "file_system \<Rightarrow> string \<Rightarrow> 'd content \<Rightarrow> (error + unit) \<times> file_system" where
  "file_write fs path c =
     (case c of
        Dictionary d \<Rightarrow> (Inl TypeError, fs)
      | Text s \<Rightarrow> (Inr (), if path = os_devnull then fs else fs(path \<mapsto> s)))"

definition gen_findings_to_file ::
    "collaborators \<Rightarrow> ('t, 'd) file_collaborators \<Rightarrow> 't \<Rightarrow> string \<Rightarrow> graph \<Rightarrow> string \<Rightarrow> string
      \<Rightarrow> file_system \<Rightarrow> (error + unit) \<times> file_system" where
  "gen_findings_to_file E F now version g formatting file fs =
     (case gen_report E now version g of
        Inl e \<Rightarrow> (Inl e, fs)
      | Inr report \<Rightarrow>
          (let content = Dictionary (as_dictionary F report) in
           (case call_str_object os_curdir of
              Inl e \<Rightarrow> (Inl e, fs)
            | Inr curdir \<Rightarrow>
                (let path = os_path_abspath F (curdir @ file);
                     path = (if \<not> os_path_isfile fs path then os_devnull else path);
                     content = (if formatting = ''json'' then Text (json_dumps F content)
                                else content)
                 in file_write (open_w fs path) path content))))"

subsection \<open>\<^verbatim>\<open>get_session\<close>\<close>

text \<open>
  The calls into \<^verbatim>\<open>boto3\<close> are parameters; each may raise. A local variable of the
  function is bound or not: \<^verbatim>\<open>stsclient\<close> is an \<open>option\<close>, \<open>None\<close> while no assignment
  to it has run, and reading it unbound raises \<^verbatim>\<open>UnboundLocalError\<close>.
\<close>

record ('s, 'c, 'k) boto3 =
  Session_profile_name :: "string \<Rightarrow> error + 's"
  Session_aws_session_token :: "'k \<Rightarrow> error + 's"
  Session_default :: "error + 's"
  boto3_client :: "string \<Rightarrow> error + 'c"
  session_client :: "'s \<Rightarrow> string \<Rightarrow> error + 'c"
  sts_assume_role :: "'c \<Rightarrow> string \<Rightarrow> string \<Rightarrow> error + 'k"
  sts_get_caller_identity :: "'c \<Rightarrow> error + unit"

definition read_local :: "'a option \<Rightarrow> error + 'a" where
  "read_local v = (case v of None \<Rightarrow> Inl UnboundLocalError | Some x \<Rightarrow> Inr x)"

definition get_session_finish :: "('s, 'c, 'k) boto3 \<Rightarrow> 's \<Rightarrow> 'c option \<Rightarrow> error + 's" where
  "get_session_finish B result stsclient =
     (case read_local stsclient of
        Inl e \<Rightarrow> Inl e
      | Inr client \<Rightarrow>
          (case sts_get_caller_identity B client of
             Inl e \<Rightarrow> Inl e
           | Inr _ \<Rightarrow> Inr result))"

definition get_session ::
    "('s, 'c, 'k) boto3 \<Rightarrow> string option \<Rightarrow> string option \<Rightarrow> error + 's" where
  "get_session B profile_arg role_arg =
     (case profile_arg of
        Some profile \<Rightarrow>
          (case Session_profile_name B profile of
             Inl e \<Rightarrow> Inl e
           | Inr result \<Rightarrow> get_session_finish B result None)
      | None \<Rightarrow>
          (case role_arg of
             Some role \<Rightarrow>
               (case boto3_client B ''sts'' of
                  Inl e \<Rightarrow> Inl e
                | Inr stsclient \<Rightarrow>
                    (case sts_assume_role B stsclient role ''PMapper'' of
                       Inl e \<Rightarrow> Inl e
                     | Inr token \<Rightarrow>
                         (case Session_aws_session_token B token of
                            Inl e \<Rightarrow> Inl e
                          | Inr result \<Rightarrow> get_session_finish B result (Some stsclient))))
           | None \<Rightarrow>
               (case Session_default B of
                  Inl e \<Rightarrow> Inl e
                | Inr result \<Rightarrow>
                    (case session_client B result ''sts'' of
                       Inl e \<Rightarrow> Inl e
                     | Inr stsclient \<Rightarrow> get_session_finish B result (Some stsclient)))))"

subsection \<open>The identity evaluation of the authorization engine\<close>

text \<open>
  Modelled from the spec: \<^verbatim>\<open>principalmapper.querying.query_interface\<close>, which holds
  \<^verbatim>\<open>local_check_authorization_handling_mfa\<close>, is not among the source files. The
  definitions below follow sections 3, 4.1 and 4.2 of the specification: glob matching of
  action and resource patterns (\<^verbatim>\<open>*\<close> any run of characters, \<^verbatim>\<open>?\<close> exactly one,
  actions compared without regard to case), conditions compared with the request context
  (exact string, wildcard string, or numeric; an unrecognised operator never holds), and the
  four steps that combine the statements of the identity policies, the group policies and
  the permission boundary.
\<close>

definition lower_char :: "char \<Rightarrow> char" where
  "lower_char c =
     (case map_of (zip ''ABCDEFGHIJKLMNOPQRSTUVWXYZ'' ''abcdefghijklmnopqrstuvwxyz'') c of
        None \<Rightarrow> c
      | Some l \<Rightarrow> l)"

fun glob_match :: "string \<Rightarrow> string \<Rightarrow> bool" where
  "glob_match [] [] = True"
| "glob_match [] (c # cs) = False"
| "glob_match (p # ps) [] = (p = CHR ''*'' \<and> glob_match ps [])"
| "glob_match (p # ps) (c # cs) =
     (if p = CHR ''*'' then glob_match ps (c # cs) \<or> glob_match (p # ps) cs
      else (p = CHR ''?'' \<or> p = c) \<and> glob_match ps cs)"

definition matches_action :: "statement \<Rightarrow> string \<Rightarrow> bool" where
  "matches_action s action =
     (\<exists>p\<in>set (actions s). glob_match (map lower_char p) (map lower_char action))"

definition matches_resource :: "statement \<Rightarrow> string \<Rightarrow> bool" where
  "matches_resource s resource = (\<exists>p\<in>set (resources s). glob_match p resource)"

fun digit_value :: "char \<Rightarrow> nat option" where
  "digit_value c = map_of (zip ''0123456789'' [0, 1, 2, 3, 4, 5, 6, 7, 8, 9]) c"

fun parse_digits :: "string \<Rightarrow> nat \<Rightarrow> nat option" where
  "parse_digits [] acc = Some acc"
| "parse_digits (c # cs) acc =
     (case digit_value c of None \<Rightarrow> None | Some d \<Rightarrow> parse_digits cs (10 * acc + d))"

definition parse_number :: "string \<Rightarrow> int option" where
  "parse_number s =
     (case s of
        [] \<Rightarrow> None
      | c # cs \<Rightarrow>
          if c = CHR ''-'' then
            (if cs = [] then None else map_option (\<lambda>k. - int k) (parse_digits cs 0))
          else map_option int (parse_digits (c # cs) 0))"

definition condition_satisfied :: "request_context \<Rightarrow> condition \<Rightarrow> bool" where
  "condition_satisfied ctx c =
     (case ctx (context_key c) of
        None \<Rightarrow> False
      | Some v \<Rightarrow>
          (case operator c of
             ExactString \<Rightarrow> v \<in> set (expected c)
           | WildcardString \<Rightarrow> (\<exists>p\<in>set (expected c). glob_match p v)
           | ExactNumeric \<Rightarrow>
               (case parse_number v of
                  None \<Rightarrow> False
                | Some k \<Rightarrow> (\<exists>x\<in>set (expected c). parse_number x = Some k))
           | UnrecognizedOperator \<Rightarrow> False))"

definition mfa_context_key :: string where
  "mfa_context_key = ''aws:MultiFactorAuthPresent''"

definition is_mfa_requirement :: "condition \<Rightarrow> bool" where
  "is_mfa_requirement c =
     (context_key c = mfa_context_key \<and> operator c \<noteq> UnrecognizedOperator)"

text \<open>
  A statement matches a request when an action pattern and a resource pattern match and
  every condition holds. For an Allow statement a second-factor requirement that the
  context does not meet does not stop the match: it sets the secondary flag instead.
\<close>

definition statement_matches :: "statement \<Rightarrow> string \<Rightarrow> string \<Rightarrow> request_context \<Rightarrow> bool" where
  "statement_matches s action resource ctx =
     (matches_action s action \<and> matches_resource s resource \<and>
      list_all (condition_satisfied ctx) (conditions s))"

definition allow_matches :: "statement \<Rightarrow> string \<Rightarrow> string \<Rightarrow> request_context \<Rightarrow> bool" where
  "allow_matches s action resource ctx =
     (effect s = Allow \<and> matches_action s action \<and> matches_resource s resource \<and>
      list_all (\<lambda>c. is_mfa_requirement c \<or> condition_satisfied ctx c) (conditions s))"

definition mfa_unmet :: "statement \<Rightarrow> request_context \<Rightarrow> bool" where
  "mfa_unmet s ctx =
     list_ex (\<lambda>c. is_mfa_requirement c \<and> \<not> condition_satisfied ctx c) (conditions s)"

definition deny_matches :: "statement \<Rightarrow> string \<Rightarrow> string \<Rightarrow> request_context \<Rightarrow> bool" where
  "deny_matches s action resource ctx =
     (effect s = Deny \<and> statement_matches s action resource ctx)"

datatype decision_outcome = ExplicitAllow | ExplicitDeny | ImplicitDeny

record authorization_decision =
  outcome :: decision_outcome
  mfa_required :: bool

definition identity_statements :: "node \<Rightarrow> statement list" where
  "identity_statements n =
     concat (attached_policies n) @
     concat (concat (map group_policies (group_memberships n)))"

definition boundary_statements :: "node \<Rightarrow> statement list" where
  "boundary_statements n = (case permissions_boundary n of None \<Rightarrow> [] | Some b \<Rightarrow> b)"

definition applicable_statements :: "node \<Rightarrow> statement list" where
  "applicable_statements n = identity_statements n @ boundary_statements n"

text \<open>
  The combination without a boundary, which is also how the boundary's own statements are
  evaluated: a matching Deny, then the first matching Allow, else an implicit deny.
\<close>

definition evaluate_statements ::
    "statement list \<Rightarrow> string \<Rightarrow> string \<Rightarrow> request_context \<Rightarrow> authorization_decision" where
  "evaluate_statements stmts action resource ctx =
     (if list_ex (\<lambda>s. deny_matches s action resource ctx) stmts
      then \<lparr>outcome = ExplicitDeny, mfa_required = False\<rparr>
      else (case find (\<lambda>s. allow_matches s action resource ctx) stmts of
              Some s \<Rightarrow> \<lparr>outcome = ExplicitAllow, mfa_required = mfa_unmet s ctx\<rparr>
            | None \<Rightarrow> \<lparr>outcome = ImplicitDeny, mfa_required = False\<rparr>))"

definition boundary_allows :: "node \<Rightarrow> string \<Rightarrow> string \<Rightarrow> request_context \<Rightarrow> bool" where
  "boundary_allows n action resource ctx =
     (case permissions_boundary n of
        None \<Rightarrow> True
      | Some b \<Rightarrow> outcome (evaluate_statements b action resource ctx) = ExplicitAllow)"

definition evaluate_identity ::
    "node \<Rightarrow> string \<Rightarrow> string \<Rightarrow> request_context \<Rightarrow> authorization_decision" where
  "evaluate_identity node action resource ctx =
     (if list_ex (\<lambda>s. deny_matches s action resource ctx) (applicable_statements node)
      then \<lparr>outcome = ExplicitDeny, mfa_required = False\<rparr>
      else if \<not> boundary_allows node action resource ctx
      then \<lparr>outcome = ImplicitDeny, mfa_required = False\<rparr>
      else evaluate_statements (identity_statements node) action resource ctx)"

text \<open>
  The risk layer receives the decision as the pair it unpacks into \<^verbatim>\<open>auth\<close> and
  \<^verbatim>\<open>needmfa\<close>: whether the outcome is an explicit allow, and the secondary flag.
\<close>

definition local_check_authorization_handling_mfa ::
    "node \<Rightarrow> string \<Rightarrow> string \<Rightarrow> request_context \<Rightarrow> bool \<times> bool" where
  "local_check_authorization_handling_mfa node action resource ctx =
     (let decision = evaluate_identity node action resource ctx
      in (outcome decision = ExplicitAllow, mfa_required decision))"

subsection \<open>Predicates used in the statements\<close>

definition returns :: "error + 'a \<Rightarrow> bool" where
  "returns r = (case r of Inl e \<Rightarrow> False | Inr v \<Rightarrow> True)"

text \<open>The engine's answer for one action, as \<^verbatim>\<open>_can_call_without_mfa\<close> asks for it.\<close>

definition mfa_query :: "collaborators \<Rightarrow> node \<Rightarrow> string \<Rightarrow> error + (bool \<times> bool)" where
  "mfa_query E n action =
     qi_local_check_authorization_handling_mfa E n action ''*'' Map.empty"

text \<open>
  The evaluation of a role's trust policy for a service principal, as the two generators
  for Lambda functions and CloudFormation stacks ask for it.
\<close>

definition trust_evaluation ::
    "collaborators \<Rightarrow> string \<Rightarrow> node \<Rightarrow> error + resource_policy_eval_result" where
  "trust_evaluation E service n =
     qi_resource_policy_authorization E service (arns_get_account_id E (arn n))
       (trust_policy n) ''sts:AssumeRole'' (arn n) Map.empty False"

text \<open>
  The engine answers with a decision each query that the generators make: about the ten
  actions for an administrative user with access keys, about the trust policy for an
  administrative role.
\<close>

definition engine_decides :: "collaborators \<Rightarrow> graph \<Rightarrow> bool" where
  "engine_decides E g =
     (\<forall>n\<in>set (nodes g).
        sublist '':user/'' (arn n) \<and> is_admin n \<and> 0 < access_keys n \<longrightarrow>
        (\<forall>action\<in>set mfa_actions. returns (mfa_query E n action)))"

definition trust_decides :: "collaborators \<Rightarrow> string \<Rightarrow> graph \<Rightarrow> bool" where
  "trust_decides E service g =
     (\<forall>n\<in>set (nodes g).
        sublist '':role/'' (arn n) \<and> is_admin n \<longrightarrow> returns (trust_evaluation E service n))"

text \<open>
  An escalation path is a sequence of edges from the principal to an administrative one, so
  a positive verdict of \<^verbatim>\<open>can_privesc\<close> comes with at least one edge.
\<close>

definition paths_nonempty :: "collaborators \<Rightarrow> graph \<Rightarrow> bool" where
  "paths_nonempty E g =
     (\<forall>n\<in>set (nodes g). fst (privesc_can_privesc E g n) \<longrightarrow> snd (privesc_can_privesc E g n) \<noteq> [])"

definition collaborators_return :: "collaborators \<Rightarrow> graph \<Rightarrow> bool" where
  "collaborators_return E g =
     (engine_decides E g \<and> trust_decides E ''lambda.amazonaws.com'' g \<and>
      trust_decides E ''cloudformation.amazonaws.com'' g \<and> paths_nonempty E g)"

text \<open>The collaborators with the engine of the specification in the place of the parameter.\<close>

definition with_spec_engine :: "collaborators \<Rightarrow> collaborators" where
  "with_spec_engine E =
     E\<lparr>qi_local_check_authorization_handling_mfa :=
         (\<lambda>node action resource ctx.
            Inr (local_check_authorization_handling_mfa node action resource ctx))\<rparr>"

definition bullet_lines :: "collaborators \<Rightarrow> node list \<Rightarrow> string" where
  "bullet_lines E ns = concat (map (\<lambda>n. ''* '' @ searchable_name E n @ ''\<newline>'') ns)"

text \<open>The part of the description that \<^verbatim>\<open>gen_privesc_findings\<close> writes for one principal and its path.\<close>

definition privesc_entry :: "collaborators \<Rightarrow> node \<times> edge list \<Rightarrow> string" where
  "privesc_entry E = (\<lambda>(n, es).
     ''* '' @ searchable_name E n @
     '' can escalate privileges by accessing the administrative principal '' @
     searchable_name E (destination (last es)) @ '':\<newline>'' @
     concat (map (\<lambda>e. ''   * '' @ describe_edge E e @ ''\<newline>'') es) @ ''\<newline>'')"

subsection \<open>An example account\<close>

text \<open>
  A small account on which the definitions are evaluated: a user without privileges that
  reaches an administrative role, two administrative users (one of them bound to MFA), an
  administrative role with an instance profile that the Lambda service may assume, and a
  role without privileges.
\<close>

definition allow_all :: policy_document where
  "allow_all = [\<lparr>effect = Allow, actions = [''*''], resources = [''*''], conditions = []\<rparr>]"

definition trust_lambda :: policy_document where
  "trust_lambda =
     [\<lparr>effect = Allow, actions = [''sts:AssumeRole''], resources = [''*''], conditions = []\<rparr>]"

definition low_user :: node where
  "low_user =
     \<lparr>arn = ''arn:aws:iam::000000000000:user/dev'', principal_type = User,
      attached_policies = [], group_memberships = [], permissions_boundary = None,
      trust_policy = None, is_admin = False, access_keys = 2, instance_profile = None\<rparr>"

definition admin_user :: node where
  "admin_user =
     \<lparr>arn = ''arn:aws:iam::000000000000:user/root_ops'', principal_type = User,
      attached_policies = [allow_all], group_memberships = [], permissions_boundary = None,
      trust_policy = None, is_admin = True, access_keys = 1, instance_profile = None\<rparr>"

definition mfa_admin_user :: node where
  "mfa_admin_user =
     \<lparr>arn = ''arn:aws:iam::000000000000:user/careful'', principal_type = User,
      attached_policies = [allow_all], group_memberships = [], permissions_boundary = None,
      trust_policy = None, is_admin = True, access_keys = 1, instance_profile = None\<rparr>"

definition admin_role :: node where
  "admin_role =
     \<lparr>arn = ''arn:aws:iam::000000000000:role/deployer'', principal_type = Role,
      attached_policies = [allow_all], group_memberships = [], permissions_boundary = None,
      trust_policy = Some trust_lambda, is_admin = True, access_keys = 0,
      instance_profile = Some ''arn:aws:iam::000000000000:instance-profile/deployer''\<rparr>"

definition plain_role :: node where
  "plain_role =
     \<lparr>arn = ''arn:aws:iam::000000000000:role/reader'', principal_type = Role,
      attached_policies = [], group_memberships = [], permissions_boundary = None,
      trust_policy = None, is_admin = False, access_keys = 0, instance_profile = None\<rparr>"

definition example_edge :: edge where
  "example_edge =
     \<lparr>edge_source = low_user, destination = admin_role, technique = ''AssumeRole'',
      rationale = ''can access via sts:AssumeRole''\<rparr>"

definition example_graph :: graph where
  "example_graph =
     \<lparr>nodes = [low_user, admin_user, mfa_admin_user, admin_role, plain_role],
      edges = [example_edge],
      metadata = [''account_id'' \<mapsto> ''000000000000'', ''pmapper_version'' \<mapsto> ''1.0.0'']\<rparr>"

definition example_collaborators :: collaborators where
  "example_collaborators =
     \<lparr>qi_local_check_authorization_handling_mfa =
        (\<lambda>n action resource ctx.
           Inr (is_admin n \<and> action = ''sts:AssumeRole'', arn n = arn mfa_admin_user)),
      qi_resource_policy_authorization =
        (\<lambda>principal account policy action resource ctx flag.
           Inr (if principal = ''lambda.amazonaws.com'' \<and> policy \<noteq> None
                then SERVICE_MATCH else NO_MATCH)),
      arns_get_account_id = (\<lambda>a. take 12 (drop 13 a)),
      privesc_can_privesc =
        (\<lambda>g n. if arn n = arn low_user then (True, [example_edge]) else (False, [])),
      searchable_name = (\<lambda>n. drop 26 (arn n)),
      describe_edge = rationale\<rparr>"

definition deny_iam :: statement where
  "deny_iam = \<lparr>effect = Deny, actions = [''iam:*''], resources = [''*''], conditions = []\<rparr>"

definition restricted_admin :: node where
  "restricted_admin =
     \<lparr>arn = ''arn:aws:iam::000000000000:user/boxed'', principal_type = User,
      attached_policies = [allow_all],
      group_memberships = [\<lparr>group_policies = [[deny_iam]]\<rparr>],
      permissions_boundary = None,
      trust_policy = None, is_admin = False, access_keys = 1, instance_profile = None\<rparr>"

definition example_boto3 :: "(string, string, string) boto3" where
  "example_boto3 =
     \<lparr>Session_profile_name =
        (\<lambda>p. if p = ''default'' then Inr ''session:default''
             else Inl (LibraryError ''ProfileNotFound'')),
      Session_aws_session_token = (\<lambda>k. Inr (''session:'' @ k)),
      Session_default = Inr ''session:environment'',
      boto3_client = (\<lambda>service. Inr (''client:'' @ service)),
      session_client = (\<lambda>s service. Inr (''client:'' @ service)),
      sts_assume_role = (\<lambda>c role name. Inr (''token:'' @ role)),
      sts_get_caller_identity = (\<lambda>c. Inr ())\<rparr>"

definition example_file_collaborators :: "(nat, string) file_collaborators" where
  "example_file_collaborators =
     \<lparr>as_dictionary = account,
      json_dumps = (\<lambda>c. case c of Dictionary d \<Rightarrow> d | Text s \<Rightarrow> s),
      os_path_abspath = (\<lambda>p. ''/work/'' @ p)\<rparr>"

definition example_files :: file_system where
  "example_files = [''/work/.report.json'' \<mapsto> ''old'']"

section \<open>Properties\<close>

subsection \<open>Loops as list operations\<close>

lemma description_body_loop_concat:
  "description_body_loop E ns body =
     body @ concat (map (\<lambda>n. ''* '' @ searchable_name E n @ ''\<newline>'') ns)"
  by (induction ns arbitrary: body) simp_all

lemma instance_profile_affected_loop_filter:
  "instance_profile_affected_loop ns acc =
     acc @ filter (\<lambda>n. sublist '':role/'' (arn n) \<and> is_admin n \<and> instance_profile n \<noteq> None) ns"
  by (induction ns arbitrary: acc) simp_all

lemma returns_iff: "returns r \<longleftrightarrow> (\<exists>v. r = Inr v)"
  by (cases r) (simp_all add: returns_def)

lemma description_body_loop_bullets:
  "description_body_loop E ns body = body @ bullet_lines E ns"
  by (simp add: description_body_loop_concat bullet_lines_def)

lemma can_call_without_mfa_decided:
  assumes "\<forall>a\<in>set as. returns (mfa_query E n a)"
  shows "can_call_without_mfa E n as = Inr (\<exists>a\<in>set as. mfa_query E n a = Inr (True, False))"
  using assms
proof (induction as)
  case Nil
  then show ?case by simp
next
  case (Cons a as)
  from Cons.prems obtain auth needmfa where
    d: "qi_local_check_authorization_handling_mfa E n a ''*'' Map.empty = Inr (auth, needmfa)"
    by (fastforce simp: returns_iff mfa_query_def)
  from Cons have ih: "can_call_without_mfa E n as =
      Inr (\<exists>a\<in>set as. mfa_query E n a = Inr (True, False))"
    by simp
  show ?case using d ih by (auto simp: mfa_query_def)
qed

lemma can_call_without_mfa_raises:
  "can_call_without_mfa E n as = Inl e \<Longrightarrow> \<exists>a\<in>set as. mfa_query E n a = Inl e"
  by (induction as) (auto simp: mfa_query_def split: sum.splits prod.splits if_splits)

lemma mfa_affected_loop_filter:
  assumes "\<forall>n\<in>set ns. sublist '':user/'' (arn n) \<and> is_admin n \<and> 0 < access_keys n \<longrightarrow>
             (\<forall>a\<in>set mfa_actions. returns (mfa_query E n a))"
  shows "mfa_affected_loop E ns acc =
           Inr (acc @ filter (\<lambda>n. sublist '':user/'' (arn n) \<and> is_admin n \<and> 0 < access_keys n \<and>
                  (\<exists>a\<in>set mfa_actions. mfa_query E n a = Inr (True, False))) ns)"
  using assms
proof (induction ns arbitrary: acc)
  case Nil
  then show ?case by simp
next
  case (Cons n ns)
  have c: "can_call_without_mfa E n mfa_actions =
      Inr (\<exists>a\<in>set mfa_actions. mfa_query E n a = Inr (True, False))"
    if "sublist '':user/'' (arn n) \<and> is_admin n \<and> 0 < access_keys n"
    using Cons.prems that by (intro can_call_without_mfa_decided) simp
  have ih: "\<And>acc. mfa_affected_loop E ns acc =
      Inr (acc @ filter (\<lambda>n. sublist '':user/'' (arn n) \<and> is_admin n \<and> 0 < access_keys n \<and>
             (\<exists>a\<in>set mfa_actions. mfa_query E n a = Inr (True, False))) ns)"
    using Cons by simp
  show ?case
  proof (cases "sublist '':user/'' (arn n) \<and> is_admin n \<and> 0 < access_keys n")
    case True
    then show ?thesis by (simp add: c ih)
  next
    case False
    then show ?thesis by (auto simp: ih)
  qed
qed

lemma function_affected_loop_filter:
  assumes "\<forall>n\<in>set ns. sublist '':role/'' (arn n) \<and> is_admin n \<longrightarrow>
             returns (trust_evaluation E ''lambda.amazonaws.com'' n)"
  shows "function_affected_loop E ns acc =
           Inr (acc @ filter (\<lambda>n. sublist '':role/'' (arn n) \<and> is_admin n \<and>
                  trust_evaluation E ''lambda.amazonaws.com'' n = Inr SERVICE_MATCH) ns)"
  using assms
proof (induction ns arbitrary: acc)
  case Nil
  then show ?case by simp
next
  case (Cons n ns)
  have r: "\<exists>res. trust_evaluation E ''lambda.amazonaws.com'' n = Inr res"
    if "sublist '':role/'' (arn n) \<and> is_admin n"
    using Cons.prems that by (auto simp: returns_iff)
  have ih: "\<And>acc. function_affected_loop E ns acc =
      Inr (acc @ filter (\<lambda>n. sublist '':role/'' (arn n) \<and> is_admin n \<and>
             trust_evaluation E ''lambda.amazonaws.com'' n = Inr SERVICE_MATCH) ns)"
    using Cons by simp
  show ?case
  proof (cases "sublist '':role/'' (arn n) \<and> is_admin n")
    case True
    with r obtain res where "trust_evaluation E ''lambda.amazonaws.com'' n = Inr res" by blast
    with True show ?thesis by (simp add: ih trust_evaluation_def)
  next
    case False
    then show ?thesis by (auto simp: ih)
  qed
qed

lemma stack_affected_loop_filter:
  assumes "\<forall>n\<in>set ns. sublist '':role/'' (arn n) \<and> is_admin n \<longrightarrow>
             returns (trust_evaluation E ''cloudformation.amazonaws.com'' n)"
  shows "stack_affected_loop E ns acc =
           Inr (acc @ filter (\<lambda>n. sublist '':role/'' (arn n) \<and> is_admin n \<and>
                  trust_evaluation E ''cloudformation.amazonaws.com'' n = Inr SERVICE_MATCH) ns)"
  using assms
proof (induction ns arbitrary: acc)
  case Nil
  then show ?case by simp
next
  case (Cons n ns)
  have r: "\<exists>res. trust_evaluation E ''cloudformation.amazonaws.com'' n = Inr res"
    if "sublist '':role/'' (arn n) \<and> is_admin n"
    using Cons.prems that by (auto simp: returns_iff)
  have ih: "\<And>acc. stack_affected_loop E ns acc =
      Inr (acc @ filter (\<lambda>n. sublist '':role/'' (arn n) \<and> is_admin n \<and>
             trust_evaluation E ''cloudformation.amazonaws.com'' n = Inr SERVICE_MATCH) ns)"
    using Cons by simp
  show ?case
  proof (cases "sublist '':role/'' (arn n) \<and> is_admin n")
    case True
    with r obtain res where "trust_evaluation E ''cloudformation.amazonaws.com'' n = Inr res" by blast
    with True show ?thesis by (simp add: ih trust_evaluation_def)
  next
    case False
    then show ?thesis by (auto simp: ih)
  qed
qed

lemma node_path_loop_filter:
  "node_path_loop E g ns acc =
     acc @ map (\<lambda>n. (n, snd (privesc_can_privesc E g n)))
             (filter (\<lambda>n. fst (privesc_can_privesc E g n)) ns)"
  by (induction ns arbitrary: acc) (simp_all split: prod.splits)

lemma edge_lines_loop_concat:
  "edge_lines_loop E es body =
     body @ concat (map (\<lambda>e. ''   * '' @ describe_edge E e @ ''\<newline>'') es)"
  by (induction es arbitrary: body) simp_all

lemma privesc_body_loop_concat:
  assumes "\<forall>(n, es)\<in>set nps. es \<noteq> []"
  shows "privesc_body_loop E nps body = Inr (body @ concat (map (privesc_entry E) nps))"
  using assms
proof (induction nps arbitrary: body)
  case Nil
  then show ?case by simp
next
  case (Cons np nps)
  obtain n es where np: "np = (n, es)" by (cases np)
  with Cons.prems have ne: "es \<noteq> []" by simp
  have ih: "\<And>body. privesc_body_loop E nps body =
      Inr (body @ concat (map (privesc_entry E) nps))"
    using Cons by simp
  show ?case
    by (simp add: np ne last_item_def ih edge_lines_loop_concat privesc_entry_def)
qed

lemma privesc_body_loop_raises:
  "privesc_body_loop E nps body = Inl e \<Longrightarrow> e = IndexError \<and> (\<exists>n. (n, []) \<in> set nps)"
  by (induction nps arbitrary: body)
     (auto simp: last_item_def Let_def split: if_splits sum.splits)

subsection \<open>The shape of each generator's result\<close>

lemma gen_privesc_findings_shape:
  "gen_privesc_findings E g = Inr fs \<Longrightarrow> length fs \<le> 1 \<and> (\<forall>f\<in>set fs. severity f = ''High'')"
  by (auto simp: gen_privesc_findings_def privesc_finding_def Let_def
        split: if_splits sum.splits)

lemma gen_mfa_actions_findings_shape:
  "gen_mfa_actions_findings E g = Inr fs \<Longrightarrow>
     length fs \<le> 1 \<and> (\<forall>f\<in>set fs. severity f = ''Medium'')"
  by (auto simp: gen_mfa_actions_findings_def mfa_finding_def split: if_splits sum.splits)

lemma gen_overprivileged_function_findings_shape:
  "gen_overprivileged_function_findings E g = Inr fs \<Longrightarrow>
     length fs \<le> 1 \<and> (\<forall>f\<in>set fs. severity f = ''Medium'')"
  by (auto simp: gen_overprivileged_function_findings_def function_finding_def
        split: if_splits sum.splits)

lemma gen_overprivileged_instance_profile_findings_shape:
  "length (gen_overprivileged_instance_profile_findings E g) \<le> 1 \<and>
   (\<forall>f\<in>set (gen_overprivileged_instance_profile_findings E g). severity f = ''High'')"
  by (simp add: gen_overprivileged_instance_profile_findings_def instance_profile_finding_def
        Let_def)

lemma gen_overprivileged_stack_findings_shape:
  "gen_overprivileged_stack_findings E g = Inr fs \<Longrightarrow>
     length fs \<le> 1 \<and> (\<forall>f\<in>set fs. severity f = ''Low'')"
  by (auto simp: gen_overprivileged_stack_findings_def stack_finding_def
        split: if_splits sum.splits)

lemma gen_all_findings_parts:
  assumes "gen_all_findings E g = Inr fs"
  shows "\<exists>p m f s. gen_privesc_findings E g = Inr p \<and> gen_mfa_actions_findings E g = Inr m
           \<and> gen_overprivileged_function_findings E g = Inr f
           \<and> gen_overprivileged_stack_findings E g = Inr s
           \<and> fs = p @ m @ f @ gen_overprivileged_instance_profile_findings E g @ s"
  using assms by (auto simp: gen_all_findings_def Let_def split: sum.splits)

lemma gen_privesc_findings_returns:
  assumes "paths_nonempty E g"
  shows "returns (gen_privesc_findings E g)"
proof -
  have l: "privesc_node_path_list E g =
       map (\<lambda>n. (n, snd (privesc_can_privesc E g n)))
         (filter (\<lambda>n. fst (privesc_can_privesc E g n)) (nodes g))"
    by (simp add: privesc_node_path_list_def node_path_loop_filter)
  from assms have "\<forall>(n, es)\<in>set (privesc_node_path_list E g). es \<noteq> []"
    by (auto simp: l paths_nonempty_def)
  then have "privesc_body_loop E (privesc_node_path_list E g) [] =
      Inr ([] @ concat (map (privesc_entry E) (privesc_node_path_list E g)))"
    by (rule privesc_body_loop_concat)
  then show ?thesis
    by (simp add: gen_privesc_findings_def Let_def returns_def)
qed

lemma gen_mfa_actions_findings_returns:
  assumes "engine_decides E g"
  shows "returns (gen_mfa_actions_findings E g)"
proof -
  from assms have "\<forall>n\<in>set (nodes g).
      sublist '':user/'' (arn n) \<and> is_admin n \<and> 0 < access_keys n \<longrightarrow>
      (\<forall>a\<in>set mfa_actions. returns (mfa_query E n a))"
    by (simp add: engine_decides_def)
  then show ?thesis
    by (simp add: gen_mfa_actions_findings_def mfa_affected_users_def
          mfa_affected_loop_filter returns_def)
qed

lemma gen_overprivileged_function_findings_returns:
  assumes "trust_decides E ''lambda.amazonaws.com'' g"
  shows "returns (gen_overprivileged_function_findings E g)"
  using assms
  by (simp add: trust_decides_def gen_overprivileged_function_findings_def
        function_affected_roles_def function_affected_loop_filter returns_def)

lemma gen_overprivileged_stack_findings_returns:
  assumes "trust_decides E ''cloudformation.amazonaws.com'' g"
  shows "returns (gen_overprivileged_stack_findings E g)"
  using assms
  by (simp add: trust_decides_def gen_overprivileged_stack_findings_def
        stack_affected_roles_def stack_affected_loop_filter returns_def)

lemma gen_all_findings_returns:
  assumes "collaborators_return E g"
  shows "returns (gen_all_findings E g)"
proof -
  from assms obtain p m f s where
    "gen_privesc_findings E g = Inr p" "gen_mfa_actions_findings E g = Inr m"
    "gen_overprivileged_function_findings E g = Inr f"
    "gen_overprivileged_stack_findings E g = Inr s"
    using gen_privesc_findings_returns [of E g] gen_mfa_actions_findings_returns [of E g]
      gen_overprivileged_function_findings_returns [of E g]
      gen_overprivileged_stack_findings_returns [of E g]
    by (auto simp: collaborators_return_def returns_iff)
  then show ?thesis
    by (simp add: gen_all_findings_def Let_def returns_def)
qed

lemma gen_all_findings_shape:
  assumes "gen_all_findings E g = Inr fs"
  shows "length fs \<le> 5 \<and> (\<forall>f\<in>set fs. severity f \<in> {''Low'', ''Medium'', ''High''})"
proof -
  from gen_all_findings_parts [OF assms] obtain p m f s where
    parts: "gen_privesc_findings E g = Inr p" "gen_mfa_actions_findings E g = Inr m"
      "gen_overprivileged_function_findings E g = Inr f"
      "gen_overprivileged_stack_findings E g = Inr s"
      and fs: "fs = p @ m @ f @ gen_overprivileged_instance_profile_findings E g @ s"
    by blast
  note sh = gen_privesc_findings_shape [OF parts(1)] gen_mfa_actions_findings_shape [OF parts(2)]
    gen_overprivileged_function_findings_shape [OF parts(3)]
    gen_overprivileged_stack_findings_shape [OF parts(4)]
    gen_overprivileged_instance_profile_findings_shape [of E g]
  from sh have "length fs \<le> 5" by (simp add: fs)
  moreover from sh have "\<forall>f\<in>set fs. severity f \<in> {''Low'', ''Medium'', ''High''}"
    unfolding fs set_append by blast
  ultimately show ?thesis by simp
qed

lemma gen_report_returns:
  assumes "collaborators_return E g" and "metadata g ''account_id'' = Some a"
  shows "\<exists>r. gen_report E now version g = Inr r \<and> account r = a"
proof -
  from assms(1) obtain fs where "gen_all_findings E g = Inr fs"
    using gen_all_findings_returns [of E g] by (auto simp: returns_iff)
  with assms(2) show ?thesis by (simp add: gen_report_def)
qed

lemma deny_matching_found:
  assumes "s \<in> set stmts" and "effect s = Deny" and "statement_matches s action resource ctx"
  shows "list_ex (\<lambda>s. deny_matches s action resource ctx) stmts"
  using assms by (auto simp: list_ex_iff deny_matches_def)

subsection \<open>The risk layer over the engine of the specification\<close>

lemma spec_engine_query:
  "mfa_query (with_spec_engine E) n a =
     Inr (local_check_authorization_handling_mfa n a ''*'' Map.empty)"
  by (simp add: mfa_query_def with_spec_engine_def)

lemma spec_engine_decides: "engine_decides (with_spec_engine E) g"
  by (simp add: engine_decides_def spec_engine_query returns_def)

lemma matching_deny_decision:
  assumes "list_ex (\<lambda>s. deny_matches s action resource ctx) (applicable_statements n)"
  shows "local_check_authorization_handling_mfa n action resource ctx = (False, False)"
  using assms by (simp add: local_check_authorization_handling_mfa_def evaluate_identity_def)

lemma denied_actions_not_callable:
  assumes "\<forall>a\<in>set acts.
             list_ex (\<lambda>s. deny_matches s a ''*'' Map.empty) (applicable_statements n)"
  shows "can_call_without_mfa (with_spec_engine E) n acts = Inr False"
proof -
  have "\<forall>a\<in>set acts. returns (mfa_query (with_spec_engine E) n a)"
    by (simp add: spec_engine_query returns_def)
  then have "can_call_without_mfa (with_spec_engine E) n acts =
      Inr (\<exists>a\<in>set acts. mfa_query (with_spec_engine E) n a = Inr (True, False))"
    by (rule can_call_without_mfa_decided)
  moreover from assms
  have "\<not> (\<exists>a\<in>set acts. mfa_query (with_spec_engine E) n a = Inr (True, False))"
    by (auto simp: spec_engine_query matching_deny_decision)
  ultimately show ?thesis by simp
qed

subsection \<open>Facts about the example account\<close>

lemmas example_nodes_defs = low_user_def admin_user_def mfa_admin_user_def admin_role_def plain_role_def

lemma example_mfa_query:
  "mfa_query example_collaborators n a =
     Inr (is_admin n \<and> a = ''sts:AssumeRole'', arn n = arn mfa_admin_user)"
  by (simp add: mfa_query_def example_collaborators_def)

lemma example_trust_evaluation:
  "trust_evaluation example_collaborators service n =
     Inr (if service = ''lambda.amazonaws.com'' \<and> trust_policy n \<noteq> None
          then SERVICE_MATCH else NO_MATCH)"
  by (simp add: trust_evaluation_def example_collaborators_def)

lemma example_engine_decides: "engine_decides example_collaborators g"
  by (simp add: engine_decides_def example_mfa_query returns_def)

lemma example_trust_decides: "trust_decides example_collaborators service g"
  by (simp add: trust_decides_def example_trust_evaluation returns_def)

lemma example_paths_nonempty: "paths_nonempty example_collaborators g"
  by (simp add: paths_nonempty_def example_collaborators_def)

lemma example_collaborators_return: "collaborators_return example_collaborators g"
  by (simp add: collaborators_return_def example_engine_decides example_trust_decides
        example_paths_nonempty)

lemma example_names:
  "searchable_name example_collaborators low_user = ''user/dev''"
  "searchable_name example_collaborators admin_role = ''role/deployer''"
  "describe_edge example_collaborators example_edge = ''can access via sts:AssumeRole''"
  by (simp_all add: example_collaborators_def low_user_def admin_role_def example_edge_def)

subsection \<open>Sensitive actions without MFA\<close>

text \<open>
  C1. For every graph, \<^verbatim>\<open>gen_mfa_actions_findings\<close> reports exactly the nodes whose ARN
  contains \<^verbatim>\<open>:user/\<close>, whose \<^verbatim>\<open>is_admin\<close> flag is true, whose access-key count is
  greater than zero, and for which at least one of the ten listed actions
  (\<^verbatim>\<open>iam:CreateUser\<close> through \<^verbatim>\<open>sts:AssumeRole\<close>) is authorized on resource \<^verbatim>\<open>*\<close>
  under the empty context with the needs-MFA flag false. When there is such a node the
  result is a single finding of severity \<^verbatim>\<open>Medium\<close> that lists them; otherwise it is
  the empty list. The engine is required to answer every query with a decision.
\<close>

theorem gen_mfa_actions_findings_exact:
  assumes "engine_decides E g"
  shows "\<exists>users.
     mfa_affected_users E g = Inr users
   \<and> users =
       filter (\<lambda>n. sublist '':user/'' (arn n) \<and> is_admin n \<and> 0 < access_keys n \<and>
                (\<exists>action\<in>set [''iam:CreateUser'', ''iam:CreateRole'', ''iam:CreateGroup'',
                                ''iam:PutUserPolicy'', ''iam:PutRolePolicy'', ''iam:PutGroupPolicy'',
                                ''iam:AttachUserPolicy'', ''iam:AttachRolePolicy'',
                                ''iam:AttachGroupPolicy'', ''sts:AssumeRole''].
                   qi_local_check_authorization_handling_mfa E n action ''*'' Map.empty
                     = Inr (True, False)))
         (nodes g)
   \<and> (users = [] \<longrightarrow> gen_mfa_actions_findings E g = Inr [])
   \<and> (users \<noteq> [] \<longrightarrow>
        (\<exists>f. gen_mfa_actions_findings E g = Inr [f]
           \<and> severity f = ''Medium''
           \<and> description f = mfa_preamble @ bullet_lines E users))"
proof -
  from assms have "\<forall>n\<in>set (nodes g).
      sublist '':user/'' (arn n) \<and> is_admin n \<and> 0 < access_keys n \<longrightarrow>
      (\<forall>a\<in>set mfa_actions. returns (mfa_query E n a))"
    by (simp add: engine_decides_def)
  then have loop: "mfa_affected_users E g =
      Inr (filter (\<lambda>n. sublist '':user/'' (arn n) \<and> is_admin n \<and> 0 < access_keys n \<and>
             (\<exists>a\<in>set mfa_actions. mfa_query E n a = Inr (True, False))) (nodes g))"
    by (simp add: mfa_affected_users_def mfa_affected_loop_filter)
  show ?thesis
    unfolding loop gen_mfa_actions_findings_def
    by (simp add: mfa_actions_def mfa_query_def mfa_finding_def description_body_loop_bullets)
qed

theorem gen_mfa_actions_findings_witness:
  "mfa_affected_users example_collaborators example_graph = Inr [admin_user]
   \<and> (\<exists>f. gen_mfa_actions_findings example_collaborators example_graph = Inr [f]
         \<and> severity f = ''Medium''
         \<and> description f = mfa_preamble @ ''* user/root_ops\<newline>'')
   \<and> gen_mfa_actions_findings example_collaborators
        (example_graph\<lparr>nodes := [low_user, mfa_admin_user, admin_role]\<rparr>) = Inr []"
proof -
  have q: "\<And>n a. qi_local_check_authorization_handling_mfa example_collaborators n a ''*'' Map.empty
      = Inr (is_admin n \<and> a = ''sts:AssumeRole'', arn n = arn mfa_admin_user)"
    by (simp add: example_collaborators_def)
  have name: "bullet_lines example_collaborators [admin_user] = ''* user/root_ops\<newline>''"
    by (simp add: bullet_lines_def example_collaborators_def admin_user_def)
  from gen_mfa_actions_findings_exact [OF example_engine_decides, of example_graph]
  obtain users where
    u: "mfa_affected_users example_collaborators example_graph = Inr users"
    and f: "users =
       filter (\<lambda>n. sublist '':user/'' (arn n) \<and> is_admin n \<and> 0 < access_keys n \<and>
                (\<exists>action\<in>set [''iam:CreateUser'', ''iam:CreateRole'', ''iam:CreateGroup'',
                                ''iam:PutUserPolicy'', ''iam:PutRolePolicy'', ''iam:PutGroupPolicy'',
                                ''iam:AttachUserPolicy'', ''iam:AttachRolePolicy'',
                                ''iam:AttachGroupPolicy'', ''sts:AssumeRole''].
                   qi_local_check_authorization_handling_mfa example_collaborators n action ''*''
                     Map.empty = Inr (True, False)))
         (nodes example_graph)"
    and g: "users \<noteq> [] \<longrightarrow>
        (\<exists>f. gen_mfa_actions_findings example_collaborators example_graph = Inr [f]
           \<and> severity f = ''Medium''
           \<and> description f = mfa_preamble @ bullet_lines example_collaborators users)"
    by blast
  have v: "users = [admin_user]"
    unfolding f by (simp add: q example_graph_def example_nodes_defs sublist_code(3))
  from gen_mfa_actions_findings_exact
    [OF example_engine_decides, of "example_graph\<lparr>nodes := [low_user, mfa_admin_user, admin_role]\<rparr>"]
  obtain others where
    f': "others =
       filter (\<lambda>n. sublist '':user/'' (arn n) \<and> is_admin n \<and> 0 < access_keys n \<and>
                (\<exists>action\<in>set [''iam:CreateUser'', ''iam:CreateRole'', ''iam:CreateGroup'',
                                ''iam:PutUserPolicy'', ''iam:PutRolePolicy'', ''iam:PutGroupPolicy'',
                                ''iam:AttachUserPolicy'', ''iam:AttachRolePolicy'',
                                ''iam:AttachGroupPolicy'', ''sts:AssumeRole''].
                   qi_local_check_authorization_handling_mfa example_collaborators n action ''*''
                     Map.empty = Inr (True, False)))
         (nodes (example_graph\<lparr>nodes := [low_user, mfa_admin_user, admin_role]\<rparr>))"
    and g': "others = [] \<longrightarrow> gen_mfa_actions_findings example_collaborators
        (example_graph\<lparr>nodes := [low_user, mfa_admin_user, admin_role]\<rparr>) = Inr []"
    by blast
  have v': "others = []"
    unfolding f' by (simp add: q example_nodes_defs sublist_code(3))
  from u g v name g' v' show ?thesis by simp
qed

subsection \<open>An explicit deny dominates\<close>

text \<open>
  C2. For every principal, action, resource and request context: when some applicable
  statement (of the identity policies, the group policies or the permission boundary) is a
  Deny whose action and resource patterns match and whose conditions are satisfied, the
  identity evaluation yields an explicit deny, never an explicit allow, and
  \<^verbatim>\<open>local_check_authorization_handling_mfa\<close> does not report the request as authorized.
\<close>

theorem explicit_deny_dominates:
  assumes "s \<in> set (applicable_statements n)"
    and "effect s = Deny"
    and "statement_matches s action resource ctx"
  shows "outcome (evaluate_identity n action resource ctx) = ExplicitDeny
   \<and> outcome (evaluate_identity n action resource ctx) \<noteq> ExplicitAllow
   \<and> \<not> fst (local_check_authorization_handling_mfa n action resource ctx)"
proof -
  from assms have "list_ex (\<lambda>s. deny_matches s action resource ctx) (applicable_statements n)"
    by (rule deny_matching_found)
  then have "evaluate_identity n action resource ctx =
      \<lparr>outcome = ExplicitDeny, mfa_required = False\<rparr>"
    by (simp add: evaluate_identity_def)
  then show ?thesis
    by (simp add: local_check_authorization_handling_mfa_def)
qed

theorem explicit_deny_dominates_witness:
  "deny_iam \<in> set (applicable_statements restricted_admin)
   \<and> statement_matches deny_iam ''iam:CreateUser'' ''*'' Map.empty
   \<and> outcome (evaluate_identity restricted_admin ''iam:CreateUser'' ''*'' Map.empty) = ExplicitDeny
   \<and> \<not> fst (local_check_authorization_handling_mfa restricted_admin ''iam:CreateUser'' ''*'' Map.empty)
   \<and> local_check_authorization_handling_mfa admin_user ''iam:CreateUser'' ''*'' Map.empty
       = (True, False)"
proof -
  have a: "deny_iam \<in> set (applicable_statements restricted_admin)"
    by (simp add: applicable_statements_def identity_statements_def restricted_admin_def)
  have b: "effect deny_iam = Deny"
    by (simp add: deny_iam_def)
  have c: "statement_matches deny_iam ''iam:CreateUser'' ''*'' Map.empty"
    by (simp add: statement_matches_def matches_action_def matches_resource_def deny_iam_def
          lower_char_def)
  have d: "local_check_authorization_handling_mfa admin_user ''iam:CreateUser'' ''*'' Map.empty
       = (True, False)"
    by (simp add: local_check_authorization_handling_mfa_def evaluate_identity_def
          evaluate_statements_def applicable_statements_def identity_statements_def
          boundary_statements_def boundary_allows_def admin_user_def allow_all_def
          deny_matches_def allow_matches_def mfa_unmet_def statement_matches_def
          matches_action_def matches_resource_def lower_char_def)
  from explicit_deny_dominates [OF a b c] a c d show ?thesis by simp
qed

subsection \<open>Roles available to Lambda functions and CloudFormation stacks\<close>

text \<open>
  C3. For every graph, \<^verbatim>\<open>gen_overprivileged_function_findings\<close> (respectively
  \<^verbatim>\<open>gen_overprivileged_stack_findings\<close>) lists a node exactly when its ARN contains
  \<^verbatim>\<open>:role/\<close>, its \<^verbatim>\<open>is_admin\<close> flag is true, and the evaluation of its trust policy
  for the service principal \<^verbatim>\<open>lambda.amazonaws.com\<close> (respectively
  \<^verbatim>\<open>cloudformation.amazonaws.com\<close>) with action \<^verbatim>\<open>sts:AssumeRole\<close> and the empty
  context returns \<^verbatim>\<open>SERVICE_MATCH\<close>; a role with any other result is not listed. The
  evaluation is required to return a result for every node.
\<close>

theorem gen_overprivileged_service_findings_exact:
  assumes "trust_decides E ''lambda.amazonaws.com'' g"
    and "trust_decides E ''cloudformation.amazonaws.com'' g"
  shows "\<exists>lambda_roles stack_roles.
     function_affected_roles E g = Inr lambda_roles
   \<and> lambda_roles =
       filter (\<lambda>n. sublist '':role/'' (arn n) \<and> is_admin n \<and>
                 qi_resource_policy_authorization E ''lambda.amazonaws.com''
                   (arns_get_account_id E (arn n)) (trust_policy n) ''sts:AssumeRole'' (arn n)
                   Map.empty False = Inr SERVICE_MATCH)
         (nodes g)
   \<and> gen_overprivileged_function_findings E g =
       Inr (if lambda_roles = [] then [] else [function_finding E lambda_roles])
   \<and> description (function_finding E lambda_roles) =
       function_preamble @ bullet_lines E lambda_roles
   \<and> stack_affected_roles E g = Inr stack_roles
   \<and> stack_roles =
       filter (\<lambda>n. sublist '':role/'' (arn n) \<and> is_admin n \<and>
                 qi_resource_policy_authorization E ''cloudformation.amazonaws.com''
                   (arns_get_account_id E (arn n)) (trust_policy n) ''sts:AssumeRole'' (arn n)
                   Map.empty False = Inr SERVICE_MATCH)
         (nodes g)
   \<and> gen_overprivileged_stack_findings E g =
       Inr (if stack_roles = [] then [] else [stack_finding E stack_roles])
   \<and> description (stack_finding E stack_roles) =
       stack_preamble @ bullet_lines E stack_roles
   \<and> (\<forall>n\<in>set (nodes g). \<forall>res.
        trust_evaluation E ''lambda.amazonaws.com'' n = Inr res \<and> res \<noteq> SERVICE_MATCH
          \<longrightarrow> n \<notin> set lambda_roles)
   \<and> (\<forall>n\<in>set (nodes g). \<forall>res.
        trust_evaluation E ''cloudformation.amazonaws.com'' n = Inr res \<and> res \<noteq> SERVICE_MATCH
          \<longrightarrow> n \<notin> set stack_roles)"
proof -
  from assms(1) have l: "function_affected_roles E g =
      Inr (filter (\<lambda>n. sublist '':role/'' (arn n) \<and> is_admin n \<and>
             trust_evaluation E ''lambda.amazonaws.com'' n = Inr SERVICE_MATCH) (nodes g))"
    by (simp add: trust_decides_def function_affected_roles_def function_affected_loop_filter)
  from assms(2) have s: "stack_affected_roles E g =
      Inr (filter (\<lambda>n. sublist '':role/'' (arn n) \<and> is_admin n \<and>
             trust_evaluation E ''cloudformation.amazonaws.com'' n = Inr SERVICE_MATCH) (nodes g))"
    by (simp add: trust_decides_def stack_affected_roles_def stack_affected_loop_filter)
  show ?thesis
    unfolding l s gen_overprivileged_function_findings_def gen_overprivileged_stack_findings_def
    by (auto simp: trust_evaluation_def function_finding_def stack_finding_def
          description_body_loop_bullets)
qed

theorem gen_overprivileged_service_findings_witness:
  "function_affected_roles example_collaborators example_graph = Inr [admin_role]
   \<and> gen_overprivileged_function_findings example_collaborators example_graph =
       Inr [function_finding example_collaborators [admin_role]]
   \<and> description (function_finding example_collaborators [admin_role]) =
       function_preamble @ ''* role/deployer\<newline>''
   \<and> stack_affected_roles example_collaborators example_graph = Inr []
   \<and> gen_overprivileged_stack_findings example_collaborators example_graph = Inr []"
proof -
  have q: "\<And>service n. qi_resource_policy_authorization example_collaborators service
      (arns_get_account_id example_collaborators (arn n)) (trust_policy n) ''sts:AssumeRole''
      (arn n) Map.empty False =
      Inr (if service = ''lambda.amazonaws.com'' \<and> trust_policy n \<noteq> None
           then SERVICE_MATCH else NO_MATCH)"
    by (simp add: example_collaborators_def)
  from gen_overprivileged_service_findings_exact
    [of example_collaborators example_graph, OF example_trust_decides example_trust_decides]
  obtain lambda_roles stack_roles where
    a: "function_affected_roles example_collaborators example_graph = Inr lambda_roles"
    and b: "lambda_roles =
       filter (\<lambda>n. sublist '':role/'' (arn n) \<and> is_admin n \<and>
                 qi_resource_policy_authorization example_collaborators ''lambda.amazonaws.com''
                   (arns_get_account_id example_collaborators (arn n)) (trust_policy n)
                   ''sts:AssumeRole'' (arn n) Map.empty False = Inr SERVICE_MATCH)
         (nodes example_graph)"
    and c: "gen_overprivileged_function_findings example_collaborators example_graph =
       Inr (if lambda_roles = [] then [] else [function_finding example_collaborators lambda_roles])"
    and d: "description (function_finding example_collaborators lambda_roles) =
       function_preamble @ bullet_lines example_collaborators lambda_roles"
    and e: "stack_affected_roles example_collaborators example_graph = Inr stack_roles"
    and f: "stack_roles =
       filter (\<lambda>n. sublist '':role/'' (arn n) \<and> is_admin n \<and>
                 qi_resource_policy_authorization example_collaborators ''cloudformation.amazonaws.com''
                   (arns_get_account_id example_collaborators (arn n)) (trust_policy n)
                   ''sts:AssumeRole'' (arn n) Map.empty False = Inr SERVICE_MATCH)
         (nodes example_graph)"
    and g: "gen_overprivileged_stack_findings example_collaborators example_graph =
       Inr (if stack_roles = [] then [] else [stack_finding example_collaborators stack_roles])"
    by blast
  have l: "lambda_roles = [admin_role]"
    unfolding b by (simp add: q example_graph_def example_nodes_defs sublist_code(3))
  have s: "stack_roles = []"
    unfolding f by (simp add: q)
  have n: "bullet_lines example_collaborators [admin_role] = ''* role/deployer\<newline>''"
    by (simp add: bullet_lines_def example_names)
  from a c d e g show ?thesis by (simp add: l s n)
qed

subsection \<open>Privilege escalation findings\<close>

text \<open>
  C4. For every graph, \<^verbatim>\<open>gen_privesc_findings\<close> returns exactly one finding, of severity
  \<^verbatim>\<open>High\<close>, when at least one node can escalate privileges according to
  \<^verbatim>\<open>can_privesc\<close>, and the empty list otherwise. For each escalating node, in graph
  order, the description names the destination of the last edge of the node's path as the
  administrative principal reached, followed by the edges of the path. A positive verdict is
  required to come with a path of at least one edge.
\<close>

theorem gen_privesc_findings_exact:
  assumes "paths_nonempty E g"
  shows "privesc_node_path_list E g =
       map (\<lambda>n. (n, snd (privesc_can_privesc E g n)))
         (filter (\<lambda>n. fst (privesc_can_privesc E g n)) (nodes g))
   \<and> ((\<exists>n\<in>set (nodes g). fst (privesc_can_privesc E g n)) \<longrightarrow>
        (\<exists>f. gen_privesc_findings E g = Inr [f]
           \<and> severity f = ''High''
           \<and> description f =
               privesc_preamble @ concat (map (privesc_entry E) (privesc_node_path_list E g))))
   \<and> (\<not> (\<exists>n\<in>set (nodes g). fst (privesc_can_privesc E g n)) \<longrightarrow>
        gen_privesc_findings E g = Inr [])"
proof -
  have l: "privesc_node_path_list E g =
       map (\<lambda>n. (n, snd (privesc_can_privesc E g n)))
         (filter (\<lambda>n. fst (privesc_can_privesc E g n)) (nodes g))"
    by (simp add: privesc_node_path_list_def node_path_loop_filter)
  from assms have "\<forall>(n, es)\<in>set (privesc_node_path_list E g). es \<noteq> []"
    by (auto simp: l paths_nonempty_def)
  then have b: "privesc_body_loop E (privesc_node_path_list E g) [] =
      Inr ([] @ concat (map (privesc_entry E) (privesc_node_path_list E g)))"
    by (rule privesc_body_loop_concat)
  have e: "(privesc_node_path_list E g = []) = (\<not> (\<exists>n\<in>set (nodes g). fst (privesc_can_privesc E g n)))"
    by (auto simp: l filter_empty_conv)
  show ?thesis
    using l b e by (auto simp: gen_privesc_findings_def privesc_finding_def Let_def)
qed

theorem gen_privesc_findings_witness:
  "privesc_node_path_list example_collaborators example_graph = [(low_user, [example_edge])]
   \<and> (\<exists>f. gen_privesc_findings example_collaborators example_graph = Inr [f]
         \<and> severity f = ''High''
         \<and> description f =
             privesc_preamble @
             ''* user/dev can escalate privileges by accessing the administrative principal role/deployer:\<newline>'' @
             ''   * can access via sts:AssumeRole\<newline>\<newline>'')
   \<and> gen_privesc_findings example_collaborators (example_graph\<lparr>nodes := [admin_user]\<rparr>) = Inr []"
proof -
  have cp: "\<And>g n. privesc_can_privesc example_collaborators g n =
      (if arn n = arn low_user then (True, [example_edge]) else (False, []))"
    by (simp add: example_collaborators_def)
  have some: "\<exists>n\<in>set (nodes example_graph). fst (privesc_can_privesc example_collaborators example_graph n)"
    by (simp add: cp example_graph_def)
  have none: "\<not> (\<exists>n\<in>set (nodes (example_graph\<lparr>nodes := [admin_user]\<rparr>)).
      fst (privesc_can_privesc example_collaborators (example_graph\<lparr>nodes := [admin_user]\<rparr>) n))"
    by (simp add: cp admin_user_def low_user_def)
  note t = gen_privesc_findings_exact [of example_collaborators, OF example_paths_nonempty]
  from t [of example_graph]
  have l: "privesc_node_path_list example_collaborators example_graph =
       map (\<lambda>n. (n, snd (privesc_can_privesc example_collaborators example_graph n)))
         (filter (\<lambda>n. fst (privesc_can_privesc example_collaborators example_graph n))
            (nodes example_graph))"
    by blast
  have l': "privesc_node_path_list example_collaborators example_graph = [(low_user, [example_edge])]"
    unfolding l by (simp add: cp example_graph_def example_nodes_defs)
  have entry: "privesc_entry example_collaborators (low_user, [example_edge]) =
      ''* user/dev can escalate privileges by accessing the administrative principal role/deployer:\<newline>'' @
      ''   * can access via sts:AssumeRole\<newline>\<newline>''"
    by (simp add: privesc_entry_def example_names)
       (simp add: example_edge_def example_names)
  from t [of example_graph] some
  have "\<exists>f. gen_privesc_findings example_collaborators example_graph = Inr [f]
         \<and> severity f = ''High''
         \<and> description f = privesc_preamble @
              concat (map (privesc_entry example_collaborators)
                (privesc_node_path_list example_collaborators example_graph))"
    by blast
  then have one: "\<exists>f. gen_privesc_findings example_collaborators example_graph = Inr [f]
         \<and> severity f = ''High''
         \<and> description f =
             privesc_preamble @
             ''* user/dev can escalate privileges by accessing the administrative principal role/deployer:\<newline>'' @
             ''   * can access via sts:AssumeRole\<newline>\<newline>''"
    by (simp add: l' entry)
  from t [of "example_graph\<lparr>nodes := [admin_user]\<rparr>"] none
  have zero: "gen_privesc_findings example_collaborators (example_graph\<lparr>nodes := [admin_user]\<rparr>) = Inr []"
    by blast
  from l' one zero show ?thesis by blast
qed

subsection \<open>Roles with an instance profile\<close>

text \<open>
  C5. For every graph, \<^verbatim>\<open>gen_overprivileged_instance_profile_findings\<close> lists a node
  exactly when its ARN contains \<^verbatim>\<open>:role/\<close>, its \<^verbatim>\<open>is_admin\<close> flag is true and its
  instance-profile association is not \<^verbatim>\<open>None\<close>: the affected roles are those nodes, in
  graph order. When there is such a role the result is a single finding of severity
  \<^verbatim>\<open>High\<close> whose description is the preamble followed by one bullet line per affected
  role; otherwise the result is the empty list.
\<close>

theorem gen_overprivileged_instance_profile_findings_exact:
  "instance_profile_affected_roles g =
     filter (\<lambda>n. sublist '':role/'' (arn n) \<and> is_admin n \<and> instance_profile n \<noteq> None) (nodes g)
   \<and> (instance_profile_affected_roles g = [] \<longrightarrow>
        gen_overprivileged_instance_profile_findings E g = [])
   \<and> (instance_profile_affected_roles g \<noteq> [] \<longrightarrow>
        (\<exists>f. gen_overprivileged_instance_profile_findings E g = [f]
           \<and> severity f = ''High''
           \<and> description f =
               instance_profile_preamble @ bullet_lines E (instance_profile_affected_roles g)))"
  by (simp add: instance_profile_affected_roles_def instance_profile_affected_loop_filter
        gen_overprivileged_instance_profile_findings_def instance_profile_finding_def
        description_body_loop_bullets Let_def)

theorem gen_overprivileged_instance_profile_findings_witness:
  "instance_profile_affected_roles example_graph = [admin_role]
   \<and> (\<exists>f. gen_overprivileged_instance_profile_findings example_collaborators example_graph = [f]
         \<and> severity f = ''High''
         \<and> description f = instance_profile_preamble @ ''* role/deployer\<newline>'')
   \<and> instance_profile_affected_roles (example_graph\<lparr>nodes := [low_user, plain_role]\<rparr>) = []
   \<and> gen_overprivileged_instance_profile_findings example_collaborators
        (example_graph\<lparr>nodes := [low_user, plain_role]\<rparr>) = []"
proof -
  have roles: "instance_profile_affected_roles example_graph = [admin_role]"
    by (simp add: instance_profile_affected_roles_def example_graph_def example_nodes_defs
          sublist_code(3))
  have none: "instance_profile_affected_roles (example_graph\<lparr>nodes := [low_user, plain_role]\<rparr>) = []"
    by (simp add: instance_profile_affected_roles_def example_graph_def low_user_def
          plain_role_def)
  have name: "bullet_lines example_collaborators [admin_role] = ''* role/deployer\<newline>''"
    by (simp add: bullet_lines_def example_names)
  from gen_overprivileged_instance_profile_findings_exact
         [of example_graph example_collaborators] roles name
  have one: "\<exists>f. gen_overprivileged_instance_profile_findings example_collaborators example_graph = [f]
         \<and> severity f = ''High''
         \<and> description f = instance_profile_preamble @ ''* role/deployer\<newline>''"
    by simp
  from gen_overprivileged_instance_profile_findings_exact
         [of "example_graph\<lparr>nodes := [low_user, plain_role]\<rparr>" example_collaborators] none
  have zero: "gen_overprivileged_instance_profile_findings example_collaborators
        (example_graph\<lparr>nodes := [low_user, plain_role]\<rparr>) = []"
    by simp
  from roles one none zero show ?thesis by blast
qed

subsection \<open>No exception for a refusal\<close>

text \<open>
  C6. A decision "not authorized" is a value, never an exception. For every node and every
  list of actions: when the engine answers each action with a decision,
  \<^verbatim>\<open>_can_call_without_mfa\<close> returns a boolean, which is true exactly when some action of
  the list is authorized with the needs-MFA flag false; when no action of the list is
  authorized without MFA it returns \<^verbatim>\<open>False\<close>; and it raises only an exception that the
  engine itself raised for an action of the list.
\<close>

theorem can_call_without_mfa_returns_boolean:
  "((\<forall>action\<in>set acts. returns (mfa_query E node action)) \<longrightarrow>
      can_call_without_mfa E node acts =
        Inr (\<exists>action\<in>set acts. mfa_query E node action = Inr (True, False)))
   \<and> ((\<forall>action\<in>set acts. \<exists>auth needmfa.
          mfa_query E node action = Inr (auth, needmfa) \<and> \<not> (auth \<and> \<not> needmfa)) \<longrightarrow>
        can_call_without_mfa E node acts = Inr False)
   \<and> (\<forall>e. can_call_without_mfa E node acts = Inl e \<longrightarrow>
          (\<exists>action\<in>set acts. mfa_query E node action = Inl e))"
proof (intro conjI impI allI)
  assume "\<forall>action\<in>set acts. returns (mfa_query E node action)"
  then show "can_call_without_mfa E node acts =
        Inr (\<exists>action\<in>set acts. mfa_query E node action = Inr (True, False))"
    by (rule can_call_without_mfa_decided)
next
  assume none: "\<forall>action\<in>set acts. \<exists>auth needmfa.
          mfa_query E node action = Inr (auth, needmfa) \<and> \<not> (auth \<and> \<not> needmfa)"
  then have "\<forall>action\<in>set acts. returns (mfa_query E node action)"
    by (fastforce simp: returns_iff)
  then have "can_call_without_mfa E node acts =
        Inr (\<exists>action\<in>set acts. mfa_query E node action = Inr (True, False))"
    by (rule can_call_without_mfa_decided)
  moreover from none have "\<not> (\<exists>action\<in>set acts. mfa_query E node action = Inr (True, False))"
    by fastforce
  ultimately show "can_call_without_mfa E node acts = Inr False" by simp
next
  fix e assume "can_call_without_mfa E node acts = Inl e"
  then show "\<exists>action\<in>set acts. mfa_query E node action = Inl e"
    by (rule can_call_without_mfa_raises)
qed

theorem can_call_without_mfa_witness:
  "can_call_without_mfa example_collaborators admin_user mfa_actions = Inr True
   \<and> can_call_without_mfa example_collaborators mfa_admin_user mfa_actions = Inr False
   \<and> can_call_without_mfa example_collaborators low_user mfa_actions = Inr False"
proof -
  have d: "\<And>n. \<forall>action\<in>set mfa_actions. returns (mfa_query example_collaborators n action)"
    by (simp add: example_mfa_query returns_def)
  have e: "\<And>n. can_call_without_mfa example_collaborators n mfa_actions =
      Inr (\<exists>action\<in>set mfa_actions. mfa_query example_collaborators n action = Inr (True, False))"
    using can_call_without_mfa_returns_boolean [of mfa_actions example_collaborators] d
    by blast
  have a: "\<exists>action\<in>set mfa_actions.
      mfa_query example_collaborators admin_user action = Inr (True, False)"
    by (simp add: example_mfa_query mfa_actions_def admin_user_def mfa_admin_user_def)
  have b: "\<not> (\<exists>action\<in>set mfa_actions.
      mfa_query example_collaborators mfa_admin_user action = Inr (True, False))"
    by (simp add: example_mfa_query)
  have c: "\<not> (\<exists>action\<in>set mfa_actions.
      mfa_query example_collaborators low_user action = Inr (True, False))"
    by (simp add: example_mfa_query low_user_def)
  from a b c show ?thesis by (simp only: e)
qed

(*C7*)
subsection \<open>Writing the findings to a file\<close>

text \<open>
  C8. \<^verbatim>\<open>gen_findings_to_file\<close> never creates or writes a file and never returns: for
  every graph, formatting and file argument and every file system, the call ends with an
  exception and the file system is what it was before. Whenever \<^verbatim>\<open>gen_report\<close> returns
  a report, the exception is the \<^verbatim>\<open>TypeError\<close> of calling the string
  \<^verbatim>\<open>os.curdir\<close>; when \<^verbatim>\<open>gen_report\<close> raises, its exception is the one that
  propagates. So the exception is not a \<^verbatim>\<open>TypeError\<close> on every invocation: for a graph
  whose metadata has no \<^verbatim>\<open>account_id\<close> entry it is the \<^verbatim>\<open>KeyError\<close> of
  \<^verbatim>\<open>gen_report\<close>.
\<close>

theorem gen_findings_to_file_never_writes:
  "snd (gen_findings_to_file E F now version g formatting file fs) = fs
   \<and> (\<exists>e. fst (gen_findings_to_file E F now version g formatting file fs) = Inl e)
   \<and> (returns (gen_report E now version g) \<longrightarrow>
        fst (gen_findings_to_file E F now version g formatting file fs) = Inl TypeError)"
  by (auto simp: gen_findings_to_file_def call_str_object_def returns_def Let_def
        split: sum.splits)

theorem gen_findings_to_file_witness:
  "gen_findings_to_file example_collaborators example_file_collaborators (0::nat) ''1.0.0''
     example_graph ''json'' ''report.json'' example_files = (Inl TypeError, example_files)"
proof -
  have m: "metadata example_graph ''account_id'' = Some ''000000000000''"
    by (simp add: example_graph_def)
  obtain r where "gen_report example_collaborators (0::nat) ''1.0.0'' example_graph = Inr r"
    using gen_report_returns [OF example_collaborators_return m, of "0::nat" "''1.0.0''"]
    by blast
  then have "returns (gen_report example_collaborators (0::nat) ''1.0.0'' example_graph)"
    by (simp add: returns_def)
  with gen_findings_to_file_never_writes
    [of example_collaborators example_file_collaborators "0::nat" "''1.0.0''" example_graph
      "''json''" "''report.json''" example_files]
  show ?thesis by (simp add: prod_eq_iff)
qed

text \<open>
  The exception is not always a \<^verbatim>\<open>TypeError\<close>: with every collaborator returning, a
  graph without the \<^verbatim>\<open>account_id\<close> entry ends the call with the \<^verbatim>\<open>KeyError\<close> of
  \<^verbatim>\<open>gen_report\<close>.
\<close>

theorem gen_findings_to_file_key_error:
  "collaborators_return example_collaborators (example_graph\<lparr>metadata := Map.empty\<rparr>)
   \<and> gen_findings_to_file example_collaborators example_file_collaborators (0::nat) ''1.0.0''
       (example_graph\<lparr>metadata := Map.empty\<rparr>) ''json'' ''report.json'' example_files
       = (Inl KeyError, example_files)
   \<and> KeyError \<noteq> TypeError"
proof -
  have r: "collaborators_return example_collaborators (example_graph\<lparr>metadata := Map.empty\<rparr>)"
    by (rule example_collaborators_return)
  then obtain fs where
    "gen_all_findings example_collaborators (example_graph\<lparr>metadata := Map.empty\<rparr>) = Inr fs"
    using gen_all_findings_returns by (auto simp: returns_iff)
  then have "gen_report example_collaborators (0::nat) ''1.0.0''
      (example_graph\<lparr>metadata := Map.empty\<rparr>) = Inl KeyError"
    by (simp add: gen_report_def)
  then have "gen_findings_to_file example_collaborators example_file_collaborators (0::nat) ''1.0.0''
       (example_graph\<lparr>metadata := Map.empty\<rparr>) ''json'' ''report.json'' example_files
       = (Inl KeyError, example_files)"
    by (simp add: gen_findings_to_file_def)
  with r show ?thesis by simp
qed

subsection \<open>A session for a profile\<close>

text \<open>
  C9. For every call of \<^verbatim>\<open>get_session\<close> in which \<^verbatim>\<open>profile_arg\<close> is not
  \<^verbatim>\<open>None\<close>, no session is returned. Whenever \<^verbatim>\<open>Session(profile_name=profile_arg)\<close>
  returns, reading the unbound local \<^verbatim>\<open>stsclient\<close> raises \<^verbatim>\<open>UnboundLocalError\<close>,
  which is a \<^verbatim>\<open>NameError\<close>; when that constructor raises, its exception is the one that
  propagates. So the exception is not a \<^verbatim>\<open>NameError\<close> for every such call: for a
  profile that \<^verbatim>\<open>boto3\<close> does not find it is \<^verbatim>\<open>ProfileNotFound\<close>.
\<close>

theorem get_session_profile_never_returns:
  "(\<forall>s. get_session B (Some profile) role_arg \<noteq> Inr s)
   \<and> (returns (Session_profile_name B profile) \<longrightarrow>
        (\<exists>e. get_session B (Some profile) role_arg = Inl e \<and> e = UnboundLocalError
           \<and> is_NameError e))"
  by (auto simp: get_session_def get_session_finish_def read_local_def returns_def
        split: sum.splits)

theorem get_session_witness:
  "get_session example_boto3 (Some ''default'') None = Inl UnboundLocalError
   \<and> get_session example_boto3 (Some ''default'') (Some ''arn:aws:iam::000000000000:role/deployer'')
       = Inl UnboundLocalError
   \<and> get_session example_boto3 None None = Inr ''session:environment''"
proof -
  have r: "returns (Session_profile_name example_boto3 ''default'')"
    by (simp add: example_boto3_def returns_def)
  note t = get_session_profile_never_returns [of example_boto3 "''default''"]
  from t [of None] r have a: "get_session example_boto3 (Some ''default'') None = Inl UnboundLocalError"
    by blast
  from t [of "Some ''arn:aws:iam::000000000000:role/deployer''"] r
  have b: "get_session example_boto3 (Some ''default'') (Some ''arn:aws:iam::000000000000:role/deployer'')
       = Inl UnboundLocalError"
    by blast
  have c: "get_session example_boto3 None None = Inr ''session:environment''"
    by (simp add: get_session_def get_session_finish_def read_local_def example_boto3_def)
  from a b c show ?thesis by simp
qed

text \<open>
  The exception is not always a \<^verbatim>\<open>NameError\<close>: for a profile that the session
  constructor refuses, the call ends with the constructor's exception.
\<close>

theorem get_session_profile_not_found:
  "get_session example_boto3 (Some ''nope'') None = Inl (LibraryError ''ProfileNotFound'')
   \<and> \<not> is_NameError (LibraryError ''ProfileNotFound'')"
  by (simp add: get_session_def example_boto3_def)

subsection \<open>At most five findings\<close>

text \<open>
  C10. For every graph, each of the five generators that \<^verbatim>\<open>gen_all_findings\<close> invokes
  returns a list of length zero or one, so \<^verbatim>\<open>gen_all_findings\<close> returns at most five
  findings, and the severity of each is \<^verbatim>\<open>Low\<close>, \<^verbatim>\<open>Medium\<close> or \<^verbatim>\<open>High\<close>. It does
  return when the collaborators return.
\<close>

theorem gen_all_findings_bounded:
  "(\<forall>fs. gen_privesc_findings E g = Inr fs \<longrightarrow> length fs \<le> 1)
   \<and> (\<forall>fs. gen_mfa_actions_findings E g = Inr fs \<longrightarrow> length fs \<le> 1)
   \<and> (\<forall>fs. gen_overprivileged_function_findings E g = Inr fs \<longrightarrow> length fs \<le> 1)
   \<and> length (gen_overprivileged_instance_profile_findings E g) \<le> 1
   \<and> (\<forall>fs. gen_overprivileged_stack_findings E g = Inr fs \<longrightarrow> length fs \<le> 1)
   \<and> (\<forall>fs. gen_all_findings E g = Inr fs \<longrightarrow>
         length fs \<le> 5 \<and> (\<forall>f\<in>set fs. severity f \<in> {''Low'', ''Medium'', ''High''}))
   \<and> (collaborators_return E g \<longrightarrow> (\<exists>fs. gen_all_findings E g = Inr fs))"
  using gen_privesc_findings_shape [of E g] gen_mfa_actions_findings_shape [of E g]
    gen_overprivileged_function_findings_shape [of E g]
    gen_overprivileged_stack_findings_shape [of E g]
    gen_overprivileged_instance_profile_findings_shape [of E g]
    gen_all_findings_shape [of E g] gen_all_findings_returns [of E g]
  by (simp add: returns_iff)

theorem gen_all_findings_witness:
  "collaborators_return example_collaborators example_graph
   \<and> (\<exists>fs. gen_all_findings example_collaborators example_graph = Inr fs
         \<and> length fs \<le> 5
         \<and> list_all (\<lambda>f. severity f \<in> {''Low'', ''Medium'', ''High''}) fs)"
proof -
  note t = gen_all_findings_bounded [of example_collaborators example_graph]
  have r: "collaborators_return example_collaborators example_graph"
    by (rule example_collaborators_return)
  with t obtain fs where fs: "gen_all_findings example_collaborators example_graph = Inr fs"
    by blast
  with t have "length fs \<le> 5 \<and> (\<forall>f\<in>set fs. severity f \<in> {''Low'', ''Medium'', ''High''})"
    by blast
  with r fs show ?thesis by (auto simp: list_all_iff)
qed

end
